theory Spec2Isabelle
  imports Complex_Main "HOL-Library.Log_Nat"
begin

section \<open>Python arithmetic\<close>

text \<open>
  The notebook \<open>hu1.ipynb\<close> computes with Python \<open>int\<close> and \<open>float\<close> values. It is
  modelled at two levels.

  The whole notebook is modelled with every quantity a \<^typ>\<open>real\<close>: a Python float is
  read as the real number it stands for, and rounding, overflow and underflow of IEEE
  doubles are left out. This level carries the numbers the notebook prints, which are
  stated with a tolerance, and their signs and composition. What it keeps of Python is
  where an operation raises instead of returning: true division by zero, and zero raised
  to a negative power.

  The unit converter \<open>vol_to_dens\<close>, the one function of the notebook and the only code
  that receives arguments, is modelled a second time exactly as Python runs it, on
  ints and IEEE doubles with round-to-nearest-even, infinities, NaN and
  \<open>OverflowError\<close> (section \<open>The unit converter in double arithmetic\<close>). Every statement
  about all arguments of the converter is made at that level.

  A computation returns \<open>Inr x\<close> when it yields \<open>x\<close> and \<open>Inl e\<close> when it raises \<open>e\<close>.
\<close>

datatype py_error = ZeroDivisionError | OverflowError | ComplexResult

text \<open>
  Sequencing: an exception raised by an earlier statement ends the run, so a statement
  that reads variables sees them in the order in which the notebook assigned them.
\<close>

definition and_then :: "py_error + 'a \<Rightarrow> ('a \<Rightarrow> py_error + 'b) \<Rightarrow> py_error + 'b" where
  "and_then m g = (case m of Inl e \<Rightarrow> Inl e | Inr a \<Rightarrow> g a)"

text \<open>Python's \<open>a / b\<close>: true division, \<open>ZeroDivisionError\<close> when \<open>b\<close> is zero.\<close>

definition truediv :: "real \<Rightarrow> real \<Rightarrow> py_error + real" where
  "truediv a b = (if b = 0 then Inl ZeroDivisionError else Inr (a / b))"

text \<open>
  Python's \<open>a ** b\<close> on floats. Anything to the power zero is one; zero to a negative
  power raises \<open>ZeroDivisionError\<close>; a negative base with an integral exponent is an
  integer power. For a negative base with a fractional exponent Python returns a complex
  number and goes on; complex arithmetic is not modelled, and the run is ended there
  with \<open>ComplexResult\<close>. The notebook raises only the positive bases \<open>298/300\<close> and
  \<open>220/300\<close> to the power \<open>-3.0\<close>.
\<close>

definition float_pow :: "real \<Rightarrow> real \<Rightarrow> py_error + real" where
  "float_pow a b =
     (if b = 0 then Inr 1
      else if a = 0 then (if b < 0 then Inl ZeroDivisionError else Inr 0)
      else if a < 0 then
        (if b = of_int \<lfloor>b\<rfloor> then Inr (power_int a \<lfloor>b\<rfloor>) else Inl ComplexResult)
      else Inr (a powr b))"

text \<open>
  \<open>math.exp\<close> is the real exponential \<^const>\<open>exp\<close>. Python raises \<open>OverflowError\<close>
  from it only when the result leaves the range of a double, which belongs to the
  rounding behaviour this model leaves out.
\<close>

section \<open>The notebook\<close>

subsection \<open>Conditions, concentrations and reaction rates (cell 2)\<close>

definition p_sfc :: real where "p_sfc = 101325"
definition p_10 :: real where "p_10 = 28000"
definition R :: real where "R = 8.31"
definition NA :: real where "NA = 6.022 * 10 ^ 23"
definition t_sfc :: real where "t_sfc = 298"

definition ho2 :: real where "ho2 = 40 * (1 / 10 ^ 12)"
definition ch3o2 :: real where "ch3o2 = 25 * (1 / 10 ^ 12)"
definition o3 :: real where "o3 = 40 * (1 / 10 ^ 9)"
definition oh_c :: real where "oh_c = 10 ^ 6"
definition f :: real where "f = 0.15"
definition j_o1d :: real where "j_o1d = 2.5 * (1 / 10 ^ 5)"

definition k1 :: real where "k1 = 8.5 * (1 / 10 ^ 12)"
definition k2 :: real where "k2 = 8.5 * (1 / 10 ^ 12)"
definition k1_l :: real where "k1_l = 7.3 * (1 / 10 ^ 14)"
definition k2_l :: real where "k2_l = 2 * (1 / 10 ^ 15)"

text \<open>
  These are the values at the idealised level. The doubles Python holds differ from
  them in the last bits: \<open>NA\<close> is the double \<open>602199999999999960154112\<close>, see
  \<open>cell2_globals\<close> below.
\<close>

subsection \<open>Volume mixing ratio to number density (cell 3)\<close>

definition vol_to_dens :: "real \<Rightarrow> real \<Rightarrow> real \<Rightarrow> py_error + real" where
  "vol_to_dens vol temp pressure = truediv (vol * NA * pressure) (R * temp * 10 ^ 6)"

definition ho2_c :: "py_error + real" where
  "ho2_c = vol_to_dens ho2 t_sfc p_sfc"

definition ch3o2_c :: "py_error + real" where
  "ch3o2_c = vol_to_dens ch3o2 t_sfc p_sfc"

definition o3_c :: "py_error + real" where
  "o3_c = vol_to_dens o3 t_sfc p_sfc"

subsection \<open>The critical NO concentration (cell 4)\<close>

definition no_crit :: "py_error + real" where
  "no_crit =
     and_then ho2_c (\<lambda>ho2_c. and_then ch3o2_c (\<lambda>ch3o2_c. and_then o3_c (\<lambda>o3_c.
       truediv (o3_c * (k1_l * oh_c + k2_l * ho2_c + f * j_o1d))
               (k1 * ho2_c + k2 * ch3o2_c))))"

subsection \<open>Conditions at the surface and at 10 km (cell 6)\<close>

text \<open>The cell assigns \<open>oh_c = 1e6\<close> again, the value it already has.\<close>

definition j_no2 :: real where "j_no2 = 1 / 10 ^ 2"
definition t_10 :: real where "t_10 = 220"
definition o3_sfc :: real where "o3_sfc = 40 * (1 / 10 ^ 9)"
definition o3_10 :: real where "o3_10 = 100 * (1 / 10 ^ 9)"
definition n2 :: real where "n2 = 78.08 * (1 / 10 ^ 2)"

definition o3_sfc_c :: "py_error + real" where
  "o3_sfc_c = vol_to_dens o3_sfc t_sfc p_sfc"

definition o3_10_c :: "py_error + real" where
  "o3_10_c = vol_to_dens o3_10 t_10 p_10"

definition n2_sfc_c :: "py_error + real" where
  "n2_sfc_c = vol_to_dens n2 t_sfc p_sfc"

definition n2_10_c :: "py_error + real" where
  "n2_10_c = vol_to_dens n2 t_10 p_10"

definition k_sfc :: "py_error + real" where
  "k_sfc = and_then (truediv (- 1310) t_sfc) (\<lambda>q. Inr (1.4 * (1 / 10 ^ 12) * exp q))"

definition k_10 :: "py_error + real" where
  "k_10 = and_then (truediv (- 1310) t_10) (\<lambda>q. Inr (1.4 * (1 / 10 ^ 12) * exp q))"

definition kn_sfc :: "py_error + real" where
  "kn_sfc =
     and_then n2_sfc_c (\<lambda>n2_sfc_c. and_then (truediv t_sfc 300) (\<lambda>q.
       and_then (float_pow q (- 3.0)) (\<lambda>p. Inr (3.3 * (1 / 10 ^ 30) * p * n2_sfc_c))))"

definition kn_10 :: "py_error + real" where
  "kn_10 =
     and_then n2_10_c (\<lambda>n2_10_c. and_then (truediv t_10 300) (\<lambda>q.
       and_then (float_pow q (- 3.0)) (\<lambda>p. Inr (3.3 * (1 / 10 ^ 30) * p * n2_10_c))))"

subsection \<open>The ratio of NO to NO2 (cells 7 and 8)\<close>

definition rat_sfc :: "py_error + real" where
  "rat_sfc =
     and_then o3_sfc_c (\<lambda>o3_sfc_c. and_then k_sfc (\<lambda>k_sfc.
       truediv j_no2 (k_sfc * o3_sfc_c)))"

definition rat_10 :: "py_error + real" where
  "rat_10 =
     and_then o3_10_c (\<lambda>o3_10_c. and_then k_10 (\<lambda>k_10.
       truediv j_no2 (k_10 * o3_10_c)))"

subsection \<open>The lifetime of NO2 (cell 9)\<close>

definition tau_no2_sfc :: "py_error + real" where
  "tau_no2_sfc = and_then kn_sfc (\<lambda>kn_sfc. truediv 1 (kn_sfc * oh_c))"

definition tau_no2_10 :: "py_error + real" where
  "tau_no2_10 = and_then kn_10 (\<lambda>kn_10. truediv 1 (kn_10 * oh_c))"

subsection \<open>The lifetime of NOx (cell 10)\<close>

definition tau_nox_sfc :: "py_error + real" where
  "tau_nox_sfc =
     and_then rat_sfc (\<lambda>rat_sfc. and_then tau_no2_sfc (\<lambda>tau_no2_sfc.
       Inr (tau_no2_sfc * (1 + rat_sfc))))"

definition tau_nox_10 :: "py_error + real" where
  "tau_nox_10 =
     and_then rat_10 (\<lambda>rat_10. and_then tau_no2_10 (\<lambda>tau_no2_10.
       Inr (tau_no2_10 * (1 + rat_10))))"

text \<open>The two lifetimes are printed in hours: \<open>tau_nox_sfc/3600\<close> and \<open>tau_nox_10/3600\<close>.\<close>

definition tau_nox_sfc_hours :: "py_error + real" where
  "tau_nox_sfc_hours = and_then tau_nox_sfc (\<lambda>tau_nox_sfc. truediv tau_nox_sfc 3600)"

definition tau_nox_10_hours :: "py_error + real" where
  "tau_nox_10_hours = and_then tau_nox_10 (\<lambda>tau_nox_10. truediv tau_nox_10 3600)"

section \<open>The unit converter in double arithmetic\<close>

subsection \<open>IEEE doubles\<close>

text \<open>
  A Python float is an IEEE 754 binary64 value: a finite number, an infinity or NaN.
  \<open>Finite x\<close> stands for the double with the real value \<open>x\<close>; it is a double when
  rounding leaves it as it is (\<open>is_double\<close>). The sign of a zero is not modelled: Python's
  \<open>==\<close> does not see it, and a division by either zero raises.
\<close>

datatype double = Finite real | PosInf | NegInf | NaN

text \<open>Rounding to the nearest integer, ties to the even one.\<close>

definition rne :: "real \<Rightarrow> int" where
  "rne q = (let n = \<lfloor>q\<rfloor>; r = q - of_int n
            in if r < 1 / 2 then n else if 1 / 2 < r then n + 1
               else if even n then n else n + 1)"

text \<open>
  The binary exponent of a nonzero real, the \<open>e\<close> with \<open>2^e \<le> \<bar>x\<bar> < 2^(e+1)\<close>, computed from
  the bit length of an integer part.
\<close>

definition expo :: "real \<Rightarrow> int" where
  "expo x = (if 1 \<le> \<bar>x\<bar> then bitlen \<lfloor>\<bar>x\<bar>\<rfloor> - 1 else - bitlen (\<lceil>1 / \<bar>x\<bar>\<rceil> - 1))"

text \<open>
  Rounding a real to a double: to the nearest multiple of the unit in the last place of
  its binade (53 significant bits, the spacing \<open>2^-1074\<close> of the subnormals below
  \<open>2^-1022\<close>), ties to even, and to an infinity once the rounded magnitude reaches
  \<open>2^1024\<close>. Python rounds float literals and the results of \<open>+\<close>, \<open>*\<close> and \<open>/\<close> on
  floats this way.
\<close>

definition round_double :: "real \<Rightarrow> double" where
  "round_double x =
     (if x = 0 then Finite 0
      else let e = max (expo x - 52) (- 1074);
               y = of_int (rne (x / power_int 2 e)) * power_int 2 e
           in if 2 ^ 1024 \<le> \<bar>y\<bar> then (if 0 < x then PosInf else NegInf) else Finite y)"


subsection \<open>Python numbers and their arithmetic\<close>

text \<open>
  An argument is an \<open>int\<close> or a \<open>float\<close>. An \<open>int\<close> that meets a \<open>float\<close> in \<open>*\<close> or \<open>/\<close> is
  converted first, rounded like any real, except that Python raises \<open>OverflowError\<close>
  where rounding would give an infinity.
\<close>

datatype py_num = PyInt int | PyFloat double

definition as_float :: "py_num \<Rightarrow> py_error + double" where
  "as_float v =
     (case v of
        PyFloat d \<Rightarrow> Inr d
      | PyInt n \<Rightarrow> (case round_double (of_int n) of
                      Finite y \<Rightarrow> Inr (Finite y) | _ \<Rightarrow> Inl OverflowError))"

text \<open>
  Multiplication, addition and division of doubles. Multiplication and addition never
  raise; they overflow to an infinity and give NaN for \<open>inf * 0\<close> and \<open>inf - inf\<close>.
\<close>

fun fmul :: "double \<Rightarrow> double \<Rightarrow> double" where
  "fmul (Finite x) (Finite y) = round_double (x * y)"
| "fmul (Finite x) PosInf = (if x = 0 then NaN else if 0 < x then PosInf else NegInf)"
| "fmul (Finite x) NegInf = (if x = 0 then NaN else if 0 < x then NegInf else PosInf)"
| "fmul PosInf (Finite y) = (if y = 0 then NaN else if 0 < y then PosInf else NegInf)"
| "fmul NegInf (Finite y) = (if y = 0 then NaN else if 0 < y then NegInf else PosInf)"
| "fmul PosInf PosInf = PosInf"
| "fmul PosInf NegInf = NegInf"
| "fmul NegInf PosInf = NegInf"
| "fmul NegInf NegInf = PosInf"
| "fmul NaN b = NaN"
| "fmul a NaN = NaN"


fun fdiv :: "double \<Rightarrow> double \<Rightarrow> double" where
  "fdiv (Finite x) (Finite y) = round_double (x / y)"
| "fdiv (Finite x) PosInf = Finite 0"
| "fdiv (Finite x) NegInf = Finite 0"
| "fdiv PosInf (Finite y) = (if 0 \<le> y then PosInf else NegInf)"
| "fdiv NegInf (Finite y) = (if 0 \<le> y then NegInf else PosInf)"
| "fdiv PosInf PosInf = NaN"
| "fdiv PosInf NegInf = NaN"
| "fdiv NegInf PosInf = NaN"
| "fdiv NegInf NegInf = NaN"
| "fdiv NaN b = NaN"
| "fdiv a NaN = NaN"

text \<open>
  Python's \<open>a / b\<close> on floats raises \<open>ZeroDivisionError\<close> when \<open>b\<close> is a zero, whatever
  \<open>a\<close> is, so \<open>fdiv\<close> only ever divides by something else.
\<close>

definition float_truediv :: "double \<Rightarrow> double \<Rightarrow> py_error + double" where
  "float_truediv a b = (if b = Finite 0 then Inl ZeroDivisionError else Inr (fdiv a b))"

subsection \<open>The converter (cell 3) on the globals of cell 2\<close>

text \<open>
  \<open>vol_to_dens\<close> reads the globals \<open>NA\<close> and \<open>R\<close> when it is called. Cell 2 assigns them
  once: \<open>NA = 6.022 * 1e23\<close>, the rounded product of two rounded literals, and
  \<open>R = 8.31\<close>.
\<close>

record py_globals =
  glob_NA :: double
  glob_R :: double

definition cell2_globals :: py_globals where
  "cell2_globals =
     \<lparr>glob_NA = fmul (round_double 6.022) (round_double (10 ^ 23)),
      glob_R = round_double 8.31\<rparr>"

text \<open>
  \<open>return((vol * NA * pressure) / (R * temp * 1e6))\<close>: the numerator is evaluated first,
  converting \<open>vol\<close> and then \<open>pressure\<close>, then the denominator, converting \<open>temp\<close>, then
  the division.
\<close>

definition vol_to_dens_double :: "py_globals \<Rightarrow> py_num \<Rightarrow> py_num \<Rightarrow> py_num \<Rightarrow> py_error + double" where
  "vol_to_dens_double g vol temp pressure =
     and_then (as_float vol) (\<lambda>v. and_then (as_float pressure) (\<lambda>p. and_then (as_float temp) (\<lambda>t.
       float_truediv (fmul (fmul v (glob_NA g)) p)
                     (fmul (fmul (glob_R g) t) (round_double (10 ^ 6))))))"

text \<open>
  A call returns its result together with the globals it leaves behind. The body assigns
  nothing, so they are the globals it found.
\<close>

definition vol_to_dens_call ::
  "py_globals \<Rightarrow> py_num \<Rightarrow> py_num \<Rightarrow> py_num \<Rightarrow> (py_error + double) \<times> py_globals" where
  "vol_to_dens_call g vol temp pressure = (vol_to_dens_double g vol temp pressure, g)"

subsection \<open>The three divisions of the notebook (cells 4, 7 to 9)\<close>




subsection \<open>Arguments and error tracking\<close>

text \<open>
  The real value of an argument; arguments whose magnitude lies between \<open>2^-200\<close> and
  \<open>2^200\<close>, far inside the range of the doubles; and arguments Python can hold, a float
  argument being a double.
\<close>

definition num_value :: "py_num \<Rightarrow> real" where
  "num_value v = (case v of PyInt n \<Rightarrow> of_int n | PyFloat (Finite x) \<Rightarrow> x | PyFloat _ \<Rightarrow> 0)"

definition in_range :: "py_num \<Rightarrow> bool" where
  "in_range v =
     (case v of
        PyInt n \<Rightarrow> n \<noteq> 0 \<and> \<bar>n\<bar> \<le> 2 ^ 200
      | PyFloat (Finite x) \<Rightarrow> 1 / 2 ^ 200 \<le> \<bar>x\<bar> \<and> \<bar>x\<bar> \<le> 2 ^ 200
      | PyFloat _ \<Rightarrow> False)"


text \<open>
  \<open>tracks lo hi a b d x\<close>: the double \<open>d\<close> is finite and is the real \<open>x\<close> times a factor
  between \<open>a\<close> and \<open>b\<close>, where \<open>\<bar>x\<bar>\<close> lies between \<open>lo\<close> and \<open>hi\<close>. The smallest positive
  double is \<open>2^-1074\<close>; a double is nonzero when it is an infinity or at least that far
  from zero.
\<close>

definition tracks :: "real \<Rightarrow> real \<Rightarrow> real \<Rightarrow> real \<Rightarrow> double \<Rightarrow> real \<Rightarrow> bool" where
  "tracks lo hi a b d x =
     (\<exists>y r. d = Finite y \<and> y = x * r \<and> a \<le> r \<and> r \<le> b \<and> lo \<le> \<bar>x\<bar> \<and> \<bar>x\<bar> \<le> hi)"

definition min_subnormal :: real where
  "min_subnormal = 1 / 2 ^ 1074"

definition is_nonzero :: "double \<Rightarrow> bool" where
  "is_nonzero d = (case d of Finite y \<Rightarrow> min_subnormal \<le> \<bar>y\<bar> | NaN \<Rightarrow> False | _ \<Rightarrow> True)"

section \<open>The formulas of the specification\<close>

text \<open>
  The specification describes each computation by a closed formula. The formulas are
  written down here from its words, as plain real functions, to be compared with what
  the notebook computes.
\<close>

text \<open>
  The unit converter: \<open>density = mixing_ratio * Avogadro * pressure /
  (R * temperature * 1e6)\<close>, with Avogadro's number \<open>6.022e23\<close> and \<open>R = 8.31\<close>.
\<close>

definition density_formula :: "real \<Rightarrow> real \<Rightarrow> real \<Rightarrow> real" where
  "density_formula mixing_ratio temperature pressure =
     mixing_ratio * (6.022 * 10 ^ 23) * pressure / (8.31 * temperature * 10 ^ 6)"

text \<open>The Arrhenius expression \<open>k = A * exp(-Ea_over_R / temperature)\<close>.\<close>

definition arrhenius :: "real \<Rightarrow> real \<Rightarrow> real \<Rightarrow> real" where
  "arrhenius A Ea_over_R temperature = A * exp (- Ea_over_R / temperature)"

text \<open>The partitioning ratio \<open>ratio = j_no2 / (k * o3_density)\<close>.\<close>

definition ratio_formula :: "real \<Rightarrow> real \<Rightarrow> real \<Rightarrow> real" where
  "ratio_formula j k o3_density = j / (k * o3_density)"

text \<open>
  The termolecular rate \<open>k_termolecular = A2 * (temperature/300)^(-3) * n2_density\<close>,
  the NO2 lifetime \<open>tau_no2 = 1 / (k_termolecular * oh_density)\<close> and the NOx lifetime
  \<open>tau_nox = tau_no2 * (1 + ratio)\<close>.
\<close>

definition k_termolecular :: "real \<Rightarrow> real \<Rightarrow> real \<Rightarrow> real" where
  "k_termolecular A2 temperature n2_density =
     A2 * power_int (temperature / 300) (- 3) * n2_density"

definition tau_no2_formula :: "real \<Rightarrow> real \<Rightarrow> real" where
  "tau_no2_formula k oh_density = 1 / (k * oh_density)"

definition tau_nox_formula :: "real \<Rightarrow> real \<Rightarrow> real" where
  "tau_nox_formula tau_no2 ratio = tau_no2 * (1 + ratio)"

text \<open>
  A computed quantity is within relative tolerance \<open>tol\<close> of \<open>target\<close> when the
  computation returns a number \<open>x\<close> with \<open>\<bar>x - target\<bar> \<le> tol * \<bar>target\<bar>\<close>; it is
  positive when the computation returns a number above zero. A computation that raises
  is neither.
\<close>

definition approx_rel :: "real \<Rightarrow> real \<Rightarrow> py_error + real \<Rightarrow> bool" where
  "approx_rel tol target r =
     (case r of Inl e \<Rightarrow> False | Inr x \<Rightarrow> \<bar>x - target\<bar> \<le> tol * \<bar>target\<bar>)"

definition positive :: "py_error + real \<Rightarrow> bool" where
  "positive r = (case r of Inl e \<Rightarrow> False | Inr x \<Rightarrow> 0 < x)"

section \<open>What each statement of the notebook returns\<close>

lemma and_then_Inr: "and_then (Inr a) g = g a"
  by (simp add: and_then_def)


lemma positive_Inr: "positive (Inr x) = (0 < x)"
  by (simp add: positive_def)

lemma truediv_nonzero: "b \<noteq> 0 \<Longrightarrow> truediv a b = Inr (a / b)"
  by (simp add: truediv_def)

lemma float_pow_pos: "0 < a \<Longrightarrow> b \<noteq> 0 \<Longrightarrow> float_pow a b = Inr (a powr b)"
  by (simp add: float_pow_def)

lemma powr_minus_three: "0 < a \<Longrightarrow> a powr (- 3) = power_int a (- 3)"
  for a :: real
  using powr_real_of_int' [of a "- 3"] by simp

lemma vol_to_dens_nonzero:
  "temp \<noteq> 0 \<Longrightarrow>
     vol_to_dens vol temp pressure = Inr (vol * NA * pressure / (R * temp * 10 ^ 6))"
  by (simp add: vol_to_dens_def truediv_def R_def)

lemma density_formula_eq:
  "density_formula vol temp pressure = vol * NA * pressure / (R * temp * 10 ^ 6)"
  by (simp add: density_formula_def NA_def R_def)

lemma vol_to_dens_density:
  "temp \<noteq> 0 \<Longrightarrow> vol_to_dens vol temp pressure = Inr (density_formula vol temp pressure)"
  by (simp add: vol_to_dens_nonzero density_formula_eq)

lemma t_sfc_nonzero: "t_sfc \<noteq> 0"
  by (simp add: t_sfc_def)

lemma t_10_nonzero: "t_10 \<noteq> 0"
  by (simp add: t_10_def)

lemma density_formula_pos:
  "0 < vol \<Longrightarrow> 0 < temp \<Longrightarrow> 0 < pressure \<Longrightarrow> 0 < density_formula vol temp pressure"
  by (simp add: density_formula_def)

lemma ho2_c_value: "ho2_c = Inr (density_formula ho2 t_sfc p_sfc)"
  unfolding ho2_c_def by (rule vol_to_dens_density) (rule t_sfc_nonzero)

lemma ch3o2_c_value: "ch3o2_c = Inr (density_formula ch3o2 t_sfc p_sfc)"
  unfolding ch3o2_c_def by (rule vol_to_dens_density) (rule t_sfc_nonzero)

lemma o3_c_value: "o3_c = Inr (density_formula o3 t_sfc p_sfc)"
  unfolding o3_c_def by (rule vol_to_dens_density) (rule t_sfc_nonzero)

lemma o3_sfc_c_value: "o3_sfc_c = Inr (density_formula o3_sfc t_sfc p_sfc)"
  unfolding o3_sfc_c_def by (rule vol_to_dens_density) (rule t_sfc_nonzero)

lemma o3_10_c_value: "o3_10_c = Inr (density_formula o3_10 t_10 p_10)"
  unfolding o3_10_c_def by (rule vol_to_dens_density) (rule t_10_nonzero)

lemma n2_sfc_c_value: "n2_sfc_c = Inr (density_formula n2 t_sfc p_sfc)"
  unfolding n2_sfc_c_def by (rule vol_to_dens_density) (rule t_sfc_nonzero)

lemma n2_10_c_value: "n2_10_c = Inr (density_formula n2 t_10 p_10)"
  unfolding n2_10_c_def by (rule vol_to_dens_density) (rule t_10_nonzero)

lemmas literal_defs =
  p_sfc_def p_10_def t_sfc_def t_10_def ho2_def ch3o2_def o3_def oh_c_def f_def j_o1d_def
  k1_def k2_def k1_l_def k2_l_def j_no2_def o3_sfc_def o3_10_def n2_def

lemma literals_pos:
  "0 < p_sfc" "0 < p_10" "0 < t_sfc" "0 < t_10" "0 < ho2" "0 < ch3o2" "0 < o3" "0 < oh_c"
  "0 < f" "0 < j_o1d" "0 < k1" "0 < k2" "0 < k1_l" "0 < k2_l" "0 < j_no2" "0 < o3_sfc"
  "0 < o3_10" "0 < n2"
  by (simp_all add: literal_defs)

lemma no_crit_value:
  "no_crit = Inr (density_formula o3 t_sfc p_sfc *
       (k1_l * oh_c + k2_l * density_formula ho2 t_sfc p_sfc + f * j_o1d) /
       (k1 * density_formula ho2 t_sfc p_sfc + k2 * density_formula ch3o2 t_sfc p_sfc))"
proof -
  have "0 < k1 * density_formula ho2 t_sfc p_sfc + k2 * density_formula ch3o2 t_sfc p_sfc"
    by (intro add_pos_pos mult_pos_pos density_formula_pos literals_pos)
  then show ?thesis
    unfolding no_crit_def ho2_c_value ch3o2_c_value o3_c_value and_then_Inr
    by (intro truediv_nonzero) simp
qed

lemma k_sfc_value: "k_sfc = Inr (arrhenius (1.4 * (1 / 10 ^ 12)) 1310 t_sfc)"
  by (simp add: k_sfc_def truediv_nonzero t_sfc_nonzero and_then_Inr arrhenius_def)

lemma k_10_value: "k_10 = Inr (arrhenius (1.4 * (1 / 10 ^ 12)) 1310 t_10)"
  by (simp add: k_10_def truediv_nonzero t_10_nonzero and_then_Inr arrhenius_def)

lemma arrhenius_pos: "0 < A \<Longrightarrow> 0 < arrhenius A E temperature"
  by (simp add: arrhenius_def)

lemma kn_sfc_value:
  "kn_sfc = Inr (k_termolecular (3.3 * (1 / 10 ^ 30)) t_sfc (density_formula n2 t_sfc p_sfc))"
proof -
  have q: "truediv t_sfc 300 = Inr (t_sfc / 300)"
    by (rule truediv_nonzero) simp
  have "0 < t_sfc / 300"
    using literals_pos(3) by simp
  then have p: "float_pow (t_sfc / 300) (- 3.0) = Inr (power_int (t_sfc / 300) (- 3))"
    by (simp add: float_pow_pos powr_minus_three)
  show ?thesis
    unfolding kn_sfc_def n2_sfc_c_value and_then_Inr q p k_termolecular_def ..
qed

lemma kn_10_value:
  "kn_10 = Inr (k_termolecular (3.3 * (1 / 10 ^ 30)) t_10 (density_formula n2 t_10 p_10))"
proof -
  have q: "truediv t_10 300 = Inr (t_10 / 300)"
    by (rule truediv_nonzero) simp
  have "0 < t_10 / 300"
    using literals_pos(4) by simp
  then have p: "float_pow (t_10 / 300) (- 3.0) = Inr (power_int (t_10 / 300) (- 3))"
    by (simp add: float_pow_pos powr_minus_three)
  show ?thesis
    unfolding kn_10_def n2_10_c_value and_then_Inr q p k_termolecular_def ..
qed

lemma k_termolecular_pos:
  "0 < A2 \<Longrightarrow> 0 < temperature \<Longrightarrow> 0 < n \<Longrightarrow> 0 < k_termolecular A2 temperature n"
  by (simp add: k_termolecular_def)

lemma rat_sfc_value:
  "rat_sfc = Inr (ratio_formula j_no2 (arrhenius (1.4 * (1 / 10 ^ 12)) 1310 t_sfc)
                    (density_formula o3_sfc t_sfc p_sfc))"
proof -
  have "0 < arrhenius (1.4 * (1 / 10 ^ 12)) 1310 t_sfc * density_formula o3_sfc t_sfc p_sfc"
    by (intro mult_pos_pos arrhenius_pos density_formula_pos literals_pos) simp_all
  then have "arrhenius (1.4 * (1 / 10 ^ 12)) 1310 t_sfc * density_formula o3_sfc t_sfc p_sfc \<noteq> 0"
    by linarith
  then show ?thesis
    unfolding rat_sfc_def k_sfc_value o3_sfc_c_value and_then_Inr ratio_formula_def
    by (rule truediv_nonzero)
qed

lemma rat_10_value:
  "rat_10 = Inr (ratio_formula j_no2 (arrhenius (1.4 * (1 / 10 ^ 12)) 1310 t_10)
                   (density_formula o3_10 t_10 p_10))"
proof -
  have "0 < arrhenius (1.4 * (1 / 10 ^ 12)) 1310 t_10 * density_formula o3_10 t_10 p_10"
    by (intro mult_pos_pos arrhenius_pos density_formula_pos literals_pos) simp_all
  then have "arrhenius (1.4 * (1 / 10 ^ 12)) 1310 t_10 * density_formula o3_10 t_10 p_10 \<noteq> 0"
    by linarith
  then show ?thesis
    unfolding rat_10_def k_10_value o3_10_c_value and_then_Inr ratio_formula_def
    by (rule truediv_nonzero)
qed

lemma ratio_formula_pos: "0 < j \<Longrightarrow> 0 < k \<Longrightarrow> 0 < d \<Longrightarrow> 0 < ratio_formula j k d"
  by (simp add: ratio_formula_def)

lemma rat_sfc_pos:
  "0 < ratio_formula j_no2 (arrhenius (1.4 * (1 / 10 ^ 12)) 1310 t_sfc)
         (density_formula o3_sfc t_sfc p_sfc)"
  by (intro ratio_formula_pos arrhenius_pos density_formula_pos literals_pos) simp_all

lemma rat_10_pos:
  "0 < ratio_formula j_no2 (arrhenius (1.4 * (1 / 10 ^ 12)) 1310 t_10)
         (density_formula o3_10 t_10 p_10)"
  by (intro ratio_formula_pos arrhenius_pos density_formula_pos literals_pos) simp_all

lemma kn_sfc_pos:
  "0 < k_termolecular (3.3 * (1 / 10 ^ 30)) t_sfc (density_formula n2 t_sfc p_sfc)"
  by (intro k_termolecular_pos density_formula_pos literals_pos) simp_all

lemma kn_10_pos:
  "0 < k_termolecular (3.3 * (1 / 10 ^ 30)) t_10 (density_formula n2 t_10 p_10)"
  by (intro k_termolecular_pos density_formula_pos literals_pos) simp_all

lemma tau_no2_sfc_value:
  "tau_no2_sfc = Inr (tau_no2_formula
     (k_termolecular (3.3 * (1 / 10 ^ 30)) t_sfc (density_formula n2 t_sfc p_sfc)) oh_c)"
proof -
  have "0 < k_termolecular (3.3 * (1 / 10 ^ 30)) t_sfc (density_formula n2 t_sfc p_sfc) * oh_c"
    by (intro mult_pos_pos kn_sfc_pos literals_pos)
  then have "k_termolecular (3.3 * (1 / 10 ^ 30)) t_sfc (density_formula n2 t_sfc p_sfc) * oh_c \<noteq> 0"
    by linarith
  then show ?thesis
    unfolding tau_no2_sfc_def kn_sfc_value and_then_Inr tau_no2_formula_def
    by (rule truediv_nonzero)
qed

lemma tau_no2_10_value:
  "tau_no2_10 = Inr (tau_no2_formula
     (k_termolecular (3.3 * (1 / 10 ^ 30)) t_10 (density_formula n2 t_10 p_10)) oh_c)"
proof -
  have "0 < k_termolecular (3.3 * (1 / 10 ^ 30)) t_10 (density_formula n2 t_10 p_10) * oh_c"
    by (intro mult_pos_pos kn_10_pos literals_pos)
  then have "k_termolecular (3.3 * (1 / 10 ^ 30)) t_10 (density_formula n2 t_10 p_10) * oh_c \<noteq> 0"
    by linarith
  then show ?thesis
    unfolding tau_no2_10_def kn_10_value and_then_Inr tau_no2_formula_def
    by (rule truediv_nonzero)
qed

lemma tau_no2_formula_pos: "0 < k \<Longrightarrow> 0 < d \<Longrightarrow> 0 < tau_no2_formula k d"
  by (simp add: tau_no2_formula_def)

lemma tau_no2_sfc_pos:
  "0 < tau_no2_formula
     (k_termolecular (3.3 * (1 / 10 ^ 30)) t_sfc (density_formula n2 t_sfc p_sfc)) oh_c"
  by (intro tau_no2_formula_pos kn_sfc_pos literals_pos)

lemma tau_no2_10_pos:
  "0 < tau_no2_formula
     (k_termolecular (3.3 * (1 / 10 ^ 30)) t_10 (density_formula n2 t_10 p_10)) oh_c"
  by (intro tau_no2_formula_pos kn_10_pos literals_pos)

lemma tau_nox_sfc_value:
  "tau_nox_sfc = Inr (tau_nox_formula
     (tau_no2_formula
        (k_termolecular (3.3 * (1 / 10 ^ 30)) t_sfc (density_formula n2 t_sfc p_sfc)) oh_c)
     (ratio_formula j_no2 (arrhenius (1.4 * (1 / 10 ^ 12)) 1310 t_sfc)
        (density_formula o3_sfc t_sfc p_sfc)))"
  unfolding tau_nox_sfc_def tau_no2_sfc_value rat_sfc_value and_then_Inr tau_nox_formula_def ..

lemma tau_nox_10_value:
  "tau_nox_10 = Inr (tau_nox_formula
     (tau_no2_formula
        (k_termolecular (3.3 * (1 / 10 ^ 30)) t_10 (density_formula n2 t_10 p_10)) oh_c)
     (ratio_formula j_no2 (arrhenius (1.4 * (1 / 10 ^ 12)) 1310 t_10)
        (density_formula o3_10 t_10 p_10)))"
  unfolding tau_nox_10_def tau_no2_10_value rat_10_value and_then_Inr tau_nox_formula_def ..

lemma tau_nox_formula_pos: "0 < t \<Longrightarrow> 0 < r \<Longrightarrow> 0 < tau_nox_formula t r"
  by (simp add: tau_nox_formula_def add_pos_pos)

subsection \<open>Enclosures of the exponential\<close>

lemma exp_taylor_lower:
  fixes x :: real
  assumes "even n"
  shows "(\<Sum>m<n. x ^ m / fact m) \<le> exp x"
proof -
  obtain t where t: "exp x = (\<Sum>m<n. x ^ m / fact m) + (exp t / fact n) * x ^ n"
    using Maclaurin_exp_le [of x n] by blast
  have "0 \<le> x ^ n"
    using assms by (rule zero_le_even_power)
  then have "0 \<le> (exp t / fact n) * x ^ n"
    by simp
  with t show ?thesis
    by linarith
qed

lemma exp_taylor_upper:
  fixes x :: real
  assumes "x \<le> 0" "odd n"
  shows "exp x \<le> (\<Sum>m<n. x ^ m / fact m)"
proof -
  obtain t where t: "exp x = (\<Sum>m<n. x ^ m / fact m) + (exp t / fact n) * x ^ n"
    using Maclaurin_exp_le [of x n] by blast
  have "x ^ n \<le> 0"
    using assms by (simp add: power_le_zero_eq odd_pos)
  then have "(exp t / fact n) * x ^ n \<le> 0"
    by (intro mult_nonneg_nonpos) simp_all
  with t show ?thesis
    by linarith
qed

lemma exp_sfc_lower: "(1232 / 100000 :: real) \<le> exp (- 1310 / 298)"
proof -
  have "(1232 / 100000 :: real) \<le> (\<Sum>m<20. (- 1310 / 298) ^ m / fact m)"
    by (simp add: lessThan_nat_numeral lessThan_Suc fact_numeral power_divide)
  also have "\<dots> \<le> exp (- 1310 / 298)"
    by (rule exp_taylor_lower) simp
  finally show ?thesis .
qed

lemma exp_sfc_upper: "exp (- 1310 / 298) \<le> (1233 / 100000 :: real)"
proof -
  have "exp (- 1310 / 298) \<le> (\<Sum>m<21. (- 1310 / 298 :: real) ^ m / fact m)"
    by (rule exp_taylor_upper) simp_all
  also have "\<dots> \<le> 1233 / 100000"
    by (simp add: lessThan_nat_numeral lessThan_Suc fact_numeral power_divide)
  finally show ?thesis .
qed

lemma exp_10_lower: "(2593 / 1000000 :: real) \<le> exp (- 1310 / 220)"
proof -
  have "(2593 / 1000000 :: real) \<le> (\<Sum>m<26. (- 1310 / 220) ^ m / fact m)"
    by (simp add: lessThan_nat_numeral lessThan_Suc fact_numeral power_divide)
  also have "\<dots> \<le> exp (- 1310 / 220)"
    by (rule exp_taylor_lower) simp
  finally show ?thesis .
qed

lemma exp_10_upper: "exp (- 1310 / 220) \<le> (2595 / 1000000 :: real)"
proof -
  have "exp (- 1310 / 220) \<le> (\<Sum>m<27. (- 1310 / 220 :: real) ^ m / fact m)"
    by (rule exp_taylor_upper) simp_all
  also have "\<dots> \<le> 2595 / 1000000"
    by (simp add: lessThan_nat_numeral lessThan_Suc fact_numeral power_divide)
  finally show ?thesis .
qed

lemma quotient_enclosure:
  fixes c e lo hi :: real
  assumes "0 \<le> c" "0 < lo" "lo \<le> e" "e \<le> hi"
  shows "c / hi \<le> c / e" and "c / e \<le> c / lo"
  using assms by (auto intro!: frac_le)

subsection \<open>Enclosures of the computed quantities\<close>

lemma rat_sfc_bounds:
  "5877 / 10000 \<le> ratio_formula j_no2 (arrhenius (1.4 * (1 / 10 ^ 12)) 1310 t_sfc)
      (density_formula o3_sfc t_sfc p_sfc)"
  "ratio_formula j_no2 (arrhenius (1.4 * (1 / 10 ^ 12)) 1310 t_sfc)
      (density_formula o3_sfc t_sfc p_sfc) \<le> 5883 / 10000"
proof -
  define c where "c = j_no2 / (1.4 * (1 / 10 ^ 12) * density_formula o3_sfc t_sfc p_sfc)"
  have r: "ratio_formula j_no2 (arrhenius (1.4 * (1 / 10 ^ 12)) 1310 t_sfc)
      (density_formula o3_sfc t_sfc p_sfc) = c / exp (- 1310 / 298)"
    by (simp add: ratio_formula_def arrhenius_def c_def t_sfc_def)
  have c: "0 \<le> c"
    by (simp add: c_def density_formula_def literal_defs)
  have lo: "5877 / 10000 \<le> c / (1233 / 100000)"
    by (simp add: c_def density_formula_def literal_defs)
  have hi: "c / (1232 / 100000) \<le> 5883 / 10000"
    by (simp add: c_def density_formula_def literal_defs)
  have "c / (1233 / 100000) \<le> c / exp (- 1310 / 298)"
    and "c / exp (- 1310 / 298) \<le> c / (1232 / 100000)"
    using quotient_enclosure [OF c _ exp_sfc_lower exp_sfc_upper] by simp_all
  with lo hi show
    "5877 / 10000 \<le> ratio_formula j_no2 (arrhenius (1.4 * (1 / 10 ^ 12)) 1310 t_sfc)
      (density_formula o3_sfc t_sfc p_sfc)"
    "ratio_formula j_no2 (arrhenius (1.4 * (1 / 10 ^ 12)) 1310 t_sfc)
      (density_formula o3_sfc t_sfc p_sfc) \<le> 5883 / 10000"
    unfolding r by linarith+
qed

lemma rat_10_bounds:
  "2984 / 1000 \<le> ratio_formula j_no2 (arrhenius (1.4 * (1 / 10 ^ 12)) 1310 t_10)
      (density_formula o3_10 t_10 p_10)"
  "ratio_formula j_no2 (arrhenius (1.4 * (1 / 10 ^ 12)) 1310 t_10)
      (density_formula o3_10 t_10 p_10) \<le> 2987 / 1000"
proof -
  define c where "c = j_no2 / (1.4 * (1 / 10 ^ 12) * density_formula o3_10 t_10 p_10)"
  have r: "ratio_formula j_no2 (arrhenius (1.4 * (1 / 10 ^ 12)) 1310 t_10)
      (density_formula o3_10 t_10 p_10) = c / exp (- 1310 / 220)"
    by (simp add: ratio_formula_def arrhenius_def c_def t_10_def)
  have c: "0 \<le> c"
    by (simp add: c_def density_formula_def literal_defs)
  have lo: "2984 / 1000 \<le> c / (2595 / 1000000)"
    by (simp add: c_def density_formula_def literal_defs)
  have hi: "c / (2593 / 1000000) \<le> 2987 / 1000"
    by (simp add: c_def density_formula_def literal_defs)
  have "c / (2595 / 1000000) \<le> c / exp (- 1310 / 220)"
    and "c / exp (- 1310 / 220) \<le> c / (2593 / 1000000)"
    using quotient_enclosure [OF c _ exp_10_lower exp_10_upper] by simp_all
  with lo hi show
    "2984 / 1000 \<le> ratio_formula j_no2 (arrhenius (1.4 * (1 / 10 ^ 12)) 1310 t_10)
      (density_formula o3_10 t_10 p_10)"
    "ratio_formula j_no2 (arrhenius (1.4 * (1 / 10 ^ 12)) 1310 t_10)
      (density_formula o3_10 t_10 p_10) \<le> 2987 / 1000"
    unfolding r by linarith+
qed

lemma tau_nox_sfc_hours_value:
  "tau_nox_sfc_hours = Inr (tau_nox_formula
     (tau_no2_formula
        (k_termolecular (3.3 * (1 / 10 ^ 30)) t_sfc (density_formula n2 t_sfc p_sfc)) oh_c)
     (ratio_formula j_no2 (arrhenius (1.4 * (1 / 10 ^ 12)) 1310 t_sfc)
        (density_formula o3_sfc t_sfc p_sfc)) / 3600)"
  unfolding tau_nox_sfc_hours_def tau_nox_sfc_value and_then_Inr
  by (rule truediv_nonzero) simp

lemma tau_nox_10_hours_value:
  "tau_nox_10_hours = Inr (tau_nox_formula
     (tau_no2_formula
        (k_termolecular (3.3 * (1 / 10 ^ 30)) t_10 (density_formula n2 t_10 p_10)) oh_c)
     (ratio_formula j_no2 (arrhenius (1.4 * (1 / 10 ^ 12)) 1310 t_10)
        (density_formula o3_10 t_10 p_10)) / 3600)"
  unfolding tau_nox_10_hours_def tau_nox_10_value and_then_Inr
  by (rule truediv_nonzero) simp

lemma scaled_enclosure:
  fixes t r lo hi :: real
  assumes "0 \<le> t" "lo \<le> r" "r \<le> hi"
  shows "t * (1 + lo) \<le> t * (1 + r)" and "t * (1 + r) \<le> t * (1 + hi)"
  using assms by (auto intro!: mult_left_mono)

lemma abs_le_from_enclosure:
  fixes x target tol :: real
  assumes "target - tol \<le> x" "x \<le> target + tol"
  shows "\<bar>x - target\<bar> \<le> tol"
  using assms by linarith

lemma tau_nox_sfc_hours_bounds:
  "\<bar>tau_nox_formula
      (tau_no2_formula
         (k_termolecular (3.3 * (1 / 10 ^ 30)) t_sfc (density_formula n2 t_sfc p_sfc)) oh_c)
      (ratio_formula j_no2 (arrhenius (1.4 * (1 / 10 ^ 12)) 1310 t_sfc)
         (density_formula o3_sfc t_sfc p_sfc)) / 3600 - 6.81\<bar> \<le> 1 / 100"
proof -
  define t where "t = tau_no2_formula
     (k_termolecular (3.3 * (1 / 10 ^ 30)) t_sfc (density_formula n2 t_sfc p_sfc)) oh_c / 3600"
  define r where "r = ratio_formula j_no2 (arrhenius (1.4 * (1 / 10 ^ 12)) 1310 t_sfc)
     (density_formula o3_sfc t_sfc p_sfc)"
  have t: "0 \<le> t"
    using tau_no2_sfc_pos by (simp add: t_def)
  have v: "tau_nox_formula
      (tau_no2_formula
         (k_termolecular (3.3 * (1 / 10 ^ 30)) t_sfc (density_formula n2 t_sfc p_sfc)) oh_c)
      (ratio_formula j_no2 (arrhenius (1.4 * (1 / 10 ^ 12)) 1310 t_sfc)
         (density_formula o3_sfc t_sfc p_sfc)) / 3600 = t * (1 + r)"
    by (simp add: tau_nox_formula_def t_def r_def)
  have lo: "6.81 - 1 / 100 \<le> t * (1 + 5877 / 10000)"
    by (simp add: t_def tau_no2_formula_def k_termolecular_def density_formula_def
        literal_defs power_int_minus power_divide inverse_eq_divide)
  have hi: "t * (1 + 5883 / 10000) \<le> 6.81 + 1 / 100"
    by (simp add: t_def tau_no2_formula_def k_termolecular_def density_formula_def
        literal_defs power_int_minus power_divide inverse_eq_divide)
  have e: "t * (1 + 5877 / 10000) \<le> t * (1 + r)" "t * (1 + r) \<le> t * (1 + 5883 / 10000)"
    using scaled_enclosure [OF t rat_sfc_bounds [folded r_def]] by simp_all
  show ?thesis
    unfolding v
    by (rule abs_le_from_enclosure [OF order_trans [OF lo e(1)] order_trans [OF e(2) hi]])
qed

lemma tau_nox_10_hours_bounds:
  "\<bar>tau_nox_formula
      (tau_no2_formula
         (k_termolecular (3.3 * (1 / 10 ^ 30)) t_10 (density_formula n2 t_10 p_10)) oh_c)
      (ratio_formula j_no2 (arrhenius (1.4 * (1 / 10 ^ 12)) 1310 t_10)
         (density_formula o3_10 t_10 p_10)) / 3600 - 18.37\<bar> \<le> 1 / 100"
proof -
  define t where "t = tau_no2_formula
     (k_termolecular (3.3 * (1 / 10 ^ 30)) t_10 (density_formula n2 t_10 p_10)) oh_c / 3600"
  define r where "r = ratio_formula j_no2 (arrhenius (1.4 * (1 / 10 ^ 12)) 1310 t_10)
     (density_formula o3_10 t_10 p_10)"
  have t: "0 \<le> t"
    using tau_no2_10_pos by (simp add: t_def)
  have v: "tau_nox_formula
      (tau_no2_formula
         (k_termolecular (3.3 * (1 / 10 ^ 30)) t_10 (density_formula n2 t_10 p_10)) oh_c)
      (ratio_formula j_no2 (arrhenius (1.4 * (1 / 10 ^ 12)) 1310 t_10)
         (density_formula o3_10 t_10 p_10)) / 3600 = t * (1 + r)"
    by (simp add: tau_nox_formula_def t_def r_def)
  have lo: "18.37 - 1 / 100 \<le> t * (1 + 2984 / 1000)"
    by (simp add: t_def tau_no2_formula_def k_termolecular_def density_formula_def
        literal_defs power_int_minus power_divide inverse_eq_divide)
  have hi: "t * (1 + 2987 / 1000) \<le> 18.37 + 1 / 100"
    by (simp add: t_def tau_no2_formula_def k_termolecular_def density_formula_def
        literal_defs power_int_minus power_divide inverse_eq_divide)
  have e: "t * (1 + 2984 / 1000) \<le> t * (1 + r)" "t * (1 + r) \<le> t * (1 + 2987 / 1000)"
    using scaled_enclosure [OF t rat_10_bounds [folded r_def]] by simp_all
  show ?thesis
    unfolding v
    by (rule abs_le_from_enclosure [OF order_trans [OF lo e(1)] order_trans [OF e(2) hi]])
qed

section \<open>Rounding to a double\<close>

lemma rne_error: "\<bar>of_int (rne q) - q\<bar> \<le> 1 / 2"
proof -
  have "of_int \<lfloor>q\<rfloor> \<le> q" "q < of_int \<lfloor>q\<rfloor> + 1"
    by linarith+
  then show ?thesis
    by (auto simp: rne_def Let_def)
qed

lemma rne_zero_iff_small: "\<bar>q\<bar> < 1 / 2 \<Longrightarrow> rne q = 0"
proof -
  assume a: "\<bar>q\<bar> < 1 / 2"
  have b: "\<bar>of_int (rne q) - q\<bar> \<le> 1 / 2" by (rule rne_error)
  from a b have "\<bar>(of_int (rne q) :: real)\<bar> < 1" by linarith
  then show ?thesis by linarith
qed

lemma rne_ge_one: "1 \<le> \<bar>q\<bar> \<Longrightarrow> rne q \<noteq> 0"
proof
  assume a: "1 \<le> \<bar>q\<bar>" and z: "rne q = 0"
  have "\<bar>of_int (rne q) - q\<bar> \<le> 1 / 2" by (rule rne_error)
  with z a show False by simp
qed

lemma power_int_2_nonneg: "0 \<le> k \<Longrightarrow> power_int (2 :: real) k = 2 ^ nat k"
  by (simp add: power_int_def)

lemma power_int_2_neg: "0 \<le> k \<Longrightarrow> power_int (2 :: real) (- k) = 1 / 2 ^ nat k"
  by (simp add: power_int_minus power_int_2_nonneg inverse_eq_divide)

lemma expo_bounds:
  assumes "x \<noteq> 0"
  shows "power_int 2 (expo x) \<le> \<bar>x\<bar>" and "\<bar>x\<bar> < power_int 2 (expo x + 1)"
proof -
  have "power_int 2 (expo x) \<le> \<bar>x\<bar> \<and> \<bar>x\<bar> < power_int 2 (expo x + 1)"
  proof (cases "1 \<le> \<bar>x\<bar>")
    case True
    define n where "n = \<lfloor>\<bar>x\<bar>\<rfloor>"
    have n: "1 \<le> n" "of_int n \<le> \<bar>x\<bar>" "\<bar>x\<bar> < of_int n + 1"
      using True unfolding n_def by linarith+
    then have pos: "0 < n" by simp
    have b: "2 ^ nat (bitlen n - 1) \<le> n" "n < 2 ^ nat (bitlen n)"
      using bitlen_bounds [OF pos] by blast+
    have b1: "1 \<le> bitlen n"
      using pos by (simp add: bitlen_alt_def)
    have e: "expo x = bitlen n - 1"
      using True by (simp add: expo_def n_def)
    have "power_int (2 :: real) (bitlen n - 1) = of_int (2 ^ nat (bitlen n - 1))"
      using b1 by (simp add: power_int_2_nonneg)
    also have "\<dots> \<le> of_int n"
      using b(1) by (rule of_int_le_iff [THEN iffD2])
    finally have lo: "power_int 2 (bitlen n - 1) \<le> \<bar>x\<bar>"
      using n(2) by linarith
    have "n + 1 \<le> 2 ^ nat (bitlen n)"
      using b(2) by simp
    then have "of_int (n + 1) \<le> (of_int (2 ^ nat (bitlen n)) :: real)"
      by (rule of_int_le_iff [THEN iffD2])
    then have "\<bar>x\<bar> < 2 ^ nat (bitlen n)"
      using n(3) by simp
    also have "(2 :: real) ^ nat (bitlen n) = power_int 2 (bitlen n - 1 + 1)"
      using b1 by (simp add: power_int_2_nonneg)
    finally show ?thesis
      using lo e by simp
  next
    case False
    define y where "y = 1 / \<bar>x\<bar>"
    define m where "m = \<lceil>y\<rceil> - 1"
    have xpos: "0 < \<bar>x\<bar>" using assms by simp
    have y1: "1 < y"
      using False xpos by (simp add: y_def)
    have m: "of_int m < y" "y \<le> of_int m + 1"
      unfolding m_def by linarith+
    have pos: "0 < m"
      using y1 m(2) by linarith
    have b: "2 ^ nat (bitlen m - 1) \<le> m" "m < 2 ^ nat (bitlen m)"
      using bitlen_bounds [OF pos] by blast+
    have b1: "1 \<le> bitlen m"
      using pos by (simp add: bitlen_alt_def)
    have e: "expo x = - bitlen m"
      using False by (simp add: expo_def m_def y_def)
    have "m + 1 \<le> 2 ^ nat (bitlen m)"
      using b(2) by simp
    then have "of_int (m + 1) \<le> (of_int (2 ^ nat (bitlen m)) :: real)"
      by (rule of_int_le_iff [THEN iffD2])
    then have yle: "y \<le> 2 ^ nat (bitlen m)"
      using m(2) by simp
    have "(2 :: real) ^ nat (bitlen m - 1) \<le> of_int m"
      using b(1) by simp
    then have ygt: "2 ^ nat (bitlen m - 1) < y"
      using m(1) by linarith
    have x_eq: "\<bar>x\<bar> = 1 / y"
      using xpos by (simp add: y_def)
    have "power_int (2 :: real) (- bitlen m) = 1 / 2 ^ nat (bitlen m)"
      using b1 by (intro power_int_2_neg) simp
    also have "\<dots> \<le> 1 / y"
      using yle y1 by (intro divide_left_mono) simp_all
    finally have lo: "power_int 2 (- bitlen m) \<le> \<bar>x\<bar>"
      using x_eq by simp
    have "1 / y < 1 / 2 ^ nat (bitlen m - 1)"
      using ygt y1 by (intro divide_strict_left_mono) simp_all
    also have "1 / 2 ^ nat (bitlen m - 1) = power_int (2 :: real) (- (bitlen m - 1))"
      using b1 by (intro power_int_2_neg [symmetric]) simp
    also have "- (bitlen m - 1) = - bitlen m + 1"
      by simp
    finally show ?thesis
      using lo e x_eq by simp
  qed
  then show "power_int 2 (expo x) \<le> \<bar>x\<bar>" and "\<bar>x\<bar> < power_int 2 (expo x + 1)"
    by blast+
qed

lemma power_int_2_less_cancel:
  assumes "power_int (2 :: real) a < power_int 2 b"
  shows "a < b"
proof (rule ccontr)
  assume "\<not> a < b"
  then have "b \<le> a" by simp
  then have "power_int (2 :: real) b \<le> power_int 2 a"
    by (intro power_int_increasing) simp_all
  with assms show False by simp
qed

lemma round_double_normal:
  assumes lo: "1 / 2 ^ 1022 \<le> \<bar>x\<bar>" and hi: "\<bar>x\<bar> \<le> 2 ^ 1023"
  shows "\<exists>y. round_double x = Finite y \<and> \<bar>y - x\<bar> \<le> \<bar>x\<bar> / 2 ^ 53"
proof -
  have nz: "x \<noteq> 0"
    using lo by auto
  note b = expo_bounds [OF nz]
  have "power_int (2 :: real) (- 1022) \<le> \<bar>x\<bar>"
    using lo by (simp add: power_int_minus inverse_eq_divide)
  with b(2) have "power_int (2 :: real) (- 1022) < power_int 2 (expo x + 1)"
    by linarith
  then have e0: "- 1022 < expo x + 1"
    by (rule power_int_2_less_cancel)
  define s :: real where "s = power_int 2 (expo x - 52)"
  define y where "y = of_int (rne (x / s)) * s"
  have spos: "0 < s"
    by (simp add: s_def)
  have mx: "max (expo x - 52) (- 1074) = expo x - 52"
    using e0 by simp
  have s2: "s * 2 ^ 52 = power_int 2 (expo x)"
    by (simp add: s_def power_int_diff)
  have "y - x = (of_int (rne (x / s)) - x / s) * s"
    using spos by (simp add: y_def left_diff_distrib)
  then have "\<bar>y - x\<bar> = \<bar>of_int (rne (x / s)) - x / s\<bar> * s"
    using spos by (simp only: abs_mult abs_of_pos)
  also have "\<dots> \<le> 1 / 2 * s"
    using spos rne_error [of "x / s"] by (intro mult_right_mono) simp_all
  also have "\<dots> = power_int 2 (expo x) / 2 ^ 53"
    using s2 [symmetric] by simp
  also have "\<dots> \<le> \<bar>x\<bar> / 2 ^ 53"
    using b(1) by (intro divide_right_mono) simp_all
  finally have err: "\<bar>y - x\<bar> \<le> \<bar>x\<bar> / 2 ^ 53" .
  have "\<bar>y\<bar> \<le> \<bar>x\<bar> + \<bar>x\<bar> / 2 ^ 53"
    using err by linarith
  also have "\<dots> \<le> 2 ^ 1023 + 2 ^ 1023 / 2 ^ 53"
    using hi by (intro add_mono divide_right_mono) simp_all
  also have "\<dots> < (2 :: real) ^ 1024"
    by simp
  finally have small: "\<not> 2 ^ 1024 \<le> \<bar>y\<bar>"
    by simp
  have "round_double x = Finite y"
    using nz small unfolding round_double_def mx Let_def y_def s_def by simp
  with err show ?thesis
    by blast
qed

lemma round_double_ratio:
  assumes lo: "1 / 2 ^ 1022 \<le> \<bar>x\<bar>" and hi: "\<bar>x\<bar> \<le> 2 ^ 1023"
  shows "\<exists>y r. round_double x = Finite y \<and> y = x * r \<and> 1 - 1 / 2 ^ 53 \<le> r \<and> r \<le> 1 + 1 / 2 ^ 53"
proof -
  obtain y where y: "round_double x = Finite y" "\<bar>y - x\<bar> \<le> \<bar>x\<bar> / 2 ^ 53"
    using round_double_normal [OF lo hi] by blast
  have nz: "x \<noteq> 0"
    using lo by auto
  define r where "r = y / x"
  have yx: "y = x * r"
    using nz by (simp add: r_def)
  have "\<bar>r - 1\<bar> = \<bar>y - x\<bar> / \<bar>x\<bar>"
    using nz by (simp add: r_def abs_divide [symmetric] diff_divide_distrib)
  also have "\<dots> \<le> (\<bar>x\<bar> / 2 ^ 53) / \<bar>x\<bar>"
    using y(2) by (intro divide_right_mono) simp_all
  also have "\<dots> = 1 / 2 ^ 53"
    using nz by simp
  finally have "\<bar>r - 1\<bar> \<le> 1 / 2 ^ 53" .
  then have "1 - 1 / 2 ^ 53 \<le> r" "r \<le> 1 + 1 / 2 ^ 53"
    by linarith+
  with y(1) yx show ?thesis
    by blast
qed


section \<open>The rounding error of the converter\<close>

lemma prod_enclosure:
  fixes p q :: real
  assumes "l1 \<le> p" "p \<le> h1" "l2 \<le> q" "q \<le> h2" "0 < l1" "0 < l2"
  shows "l1 * l2 \<le> p * q" and "p * q \<le> h1 * h2"
proof -
  show "l1 * l2 \<le> p * q"
    using assms by (intro mult_mono') simp_all
  have "0 \<le> p" "0 \<le> q"
    using assms by linarith+
  then show "p * q \<le> h1 * h2"
    using assms by (intro mult_mono') simp_all
qed

lemma quot_enclosure:
  fixes p q :: real
  assumes "l1 \<le> p" "p \<le> h1" "l2 \<le> q" "q \<le> h2" "0 < l1" "0 < l2"
  shows "l1 / h2 \<le> p / q" and "p / q \<le> h1 / l2"
proof -
  have "0 < q" "0 \<le> p"
    using assms by linarith+
  then show "l1 / h2 \<le> p / q" and "p / q \<le> h1 / l2"
    using assms by (auto intro!: frac_le)
qed

lemma tracks_const:
  assumes "c \<noteq> 0"
  shows "tracks \<bar>c\<bar> \<bar>c\<bar> (y / c) (y / c) (Finite y) c"
  using assms by (auto simp: tracks_def intro!: exI [of _ "y / c"])

lemma tracks_weaken:
  assumes "tracks lo hi a b d x" "lo' \<le> lo" "hi \<le> hi'" "a' \<le> a" "b \<le> b'"
  shows "tracks lo' hi' a' b' d x"
  using assms unfolding tracks_def by force

lemma fmul_tracks:
  assumes t1: "tracks lo1 hi1 a1 b1 d1 x1" and t2: "tracks lo2 hi2 a2 b2 d2 x2"
    and pos: "0 < lo1" "0 < lo2" "0 < a1" "0 < a2"
    and rng: "1 / 2 ^ 1022 \<le> lo1 * lo2 * (a1 * a2)" "hi1 * hi2 * (b1 * b2) \<le> 2 ^ 1023"
  shows "tracks (lo1 * lo2) (hi1 * hi2) (a1 * a2 * (1 - 1 / 2 ^ 53)) (b1 * b2 * (1 + 1 / 2 ^ 53))
           (fmul d1 d2) (x1 * x2)"
proof -
  obtain y1 r1 where 1: "d1 = Finite y1" "y1 = x1 * r1" "a1 \<le> r1" "r1 \<le> b1"
      "lo1 \<le> \<bar>x1\<bar>" "\<bar>x1\<bar> \<le> hi1"
    using t1 unfolding tracks_def by blast
  obtain y2 r2 where 2: "d2 = Finite y2" "y2 = x2 * r2" "a2 \<le> r2" "r2 \<le> b2"
      "lo2 \<le> \<bar>x2\<bar>" "\<bar>x2\<bar> \<le> hi2"
    using t2 unfolding tracks_def by blast
  have rpos: "0 < r1" "0 < r2"
    using pos 1(3) 2(3) by linarith+
  note xx = prod_enclosure [OF 1(5,6) 2(5,6) pos(1,2)]
  note rr = prod_enclosure [OF 1(3,4) 2(3,4) pos(3,4)]
  have ppos: "0 < lo1 * lo2" "0 < a1 * a2"
    using pos by simp_all
  have z: "\<bar>y1 * y2\<bar> = (\<bar>x1\<bar> * \<bar>x2\<bar>) * (r1 * r2)"
    using rpos by (simp add: 1(2) 2(2) abs_mult)
  note zz = prod_enclosure [OF xx rr ppos]
  from zz(1) rng(1) have zlo: "1 / 2 ^ 1022 \<le> \<bar>y1 * y2\<bar>"
    unfolding z by linarith
  from zz(2) rng(2) have zhi: "\<bar>y1 * y2\<bar> \<le> 2 ^ 1023"
    unfolding z by linarith
  obtain y s where y: "round_double (y1 * y2) = Finite y" "y = y1 * y2 * s"
      "1 - 1 / 2 ^ 53 \<le> s" "s \<le> 1 + 1 / 2 ^ 53"
    using round_double_ratio [OF zlo zhi] by blast
  have upos: "0 < (1 - 1 / 2 ^ 53 :: real)"
    by simp
  note ss = prod_enclosure [OF rr y(3,4) ppos(2) upos]
  have v: "y = x1 * x2 * (r1 * r2 * s)"
    by (simp add: y(2) 1(2) 2(2))
  have t: "tracks (lo1 * lo2) (hi1 * hi2) (a1 * a2 * (1 - 1 / 2 ^ 53))
      (b1 * b2 * (1 + 1 / 2 ^ 53)) (Finite y) (x1 * x2)"
    unfolding tracks_def abs_mult
    using v ss xx by blast
  have "fmul d1 d2 = Finite y"
    by (simp add: 1(1) 2(1) y(1))
  with t show ?thesis
    by simp
qed

lemma float_truediv_tracks:
  assumes t1: "tracks lo1 hi1 a1 b1 d1 x1" and t2: "tracks lo2 hi2 a2 b2 d2 x2"
    and pos: "0 < lo1" "0 < lo2" "0 < a1" "0 < a2"
    and rng: "1 / 2 ^ 1022 \<le> lo1 / hi2 * (a1 / b2)" "hi1 / lo2 * (b1 / a2) \<le> 2 ^ 1023"
  shows "\<exists>d. float_truediv d1 d2 = Inr d \<and>
           tracks (lo1 / hi2) (hi1 / lo2) (a1 / b2 * (1 - 1 / 2 ^ 53)) (b1 / a2 * (1 + 1 / 2 ^ 53))
             d (x1 / x2)"
proof -
  obtain y1 r1 where 1: "d1 = Finite y1" "y1 = x1 * r1" "a1 \<le> r1" "r1 \<le> b1"
      "lo1 \<le> \<bar>x1\<bar>" "\<bar>x1\<bar> \<le> hi1"
    using t1 unfolding tracks_def by blast
  obtain y2 r2 where 2: "d2 = Finite y2" "y2 = x2 * r2" "a2 \<le> r2" "r2 \<le> b2"
      "lo2 \<le> \<bar>x2\<bar>" "\<bar>x2\<bar> \<le> hi2"
    using t2 unfolding tracks_def by blast
  have rpos: "0 < r1" "0 < r2"
    using pos 1(3) 2(3) by linarith+
  have xpos: "0 < \<bar>x1\<bar>" "0 < \<bar>x2\<bar>"
    using pos 1(5) 2(5) by linarith+
  have hpos: "0 < hi2" "0 < b2"
    using xpos 2(6) rpos 2(4) by linarith+
  note xx = quot_enclosure [OF 1(5,6) 2(5,6) pos(1,2)]
  note rr = quot_enclosure [OF 1(3,4) 2(3,4) pos(3,4)]
  have ppos: "0 < lo1 / hi2" "0 < a1 / b2"
    using pos hpos by simp_all
  have y2nz: "y2 \<noteq> 0"
    using xpos rpos by (simp add: 2(2))
  have z: "\<bar>y1 / y2\<bar> = (\<bar>x1\<bar> / \<bar>x2\<bar>) * (r1 / r2)"
    using rpos by (simp add: 1(2) 2(2) abs_mult)
  note zz = prod_enclosure [OF xx rr ppos]
  from zz(1) rng(1) have zlo: "1 / 2 ^ 1022 \<le> \<bar>y1 / y2\<bar>"
    unfolding z by linarith
  from zz(2) rng(2) have zhi: "\<bar>y1 / y2\<bar> \<le> 2 ^ 1023"
    unfolding z by linarith
  obtain y s where y: "round_double (y1 / y2) = Finite y" "y = y1 / y2 * s"
      "1 - 1 / 2 ^ 53 \<le> s" "s \<le> 1 + 1 / 2 ^ 53"
    using round_double_ratio [OF zlo zhi] by blast
  have upos: "0 < (1 - 1 / 2 ^ 53 :: real)"
    by simp
  note ss = prod_enclosure [OF rr y(3,4) ppos(2) upos]
  have v: "y = x1 / x2 * (r1 / r2 * s)"
    by (simp add: y(2) 1(2) 2(2))
  have t: "tracks (lo1 / hi2) (hi1 / lo2) (a1 / b2 * (1 - 1 / 2 ^ 53))
      (b1 / a2 * (1 + 1 / 2 ^ 53)) (Finite y) (x1 / x2)"
    unfolding tracks_def abs_divide
    using v ss xx by blast
  have "float_truediv d1 d2 = Inr (Finite y)"
    using y2nz by (simp add: float_truediv_def 1(1) 2(1) y(1))
  with t show ?thesis
    by blast
qed

lemma as_float_tracks:
  assumes "in_range v"
  shows "\<exists>d. as_float v = Inr d \<and>
           tracks (1 / 2 ^ 200) (2 ^ 200) (1 - 1 / 2 ^ 53) (1 + 1 / 2 ^ 53) d (num_value v)"
proof (cases v)
  case (PyInt n)
  with assms have n: "n \<noteq> 0" "\<bar>n\<bar> \<le> 2 ^ 200"
    by (simp_all add: in_range_def)
  have a1: "1 \<le> \<bar>real_of_int n\<bar>"
    using n(1) by linarith
  have a2: "\<bar>real_of_int n\<bar> \<le> 2 ^ 200"
    using n(2) of_int_le_iff [of "\<bar>n\<bar>" "2 ^ 200", where ?'a = real] by simp
  have lo: "1 / 2 ^ 1022 \<le> \<bar>real_of_int n\<bar>"
    using a1 by (rule order_trans [rotated]) simp
  have hi: "\<bar>real_of_int n\<bar> \<le> 2 ^ 1023"
    using a2 by (rule order_trans) simp
  obtain y r where y: "round_double (of_int n) = Finite y" "y = of_int n * r"
      "1 - 1 / 2 ^ 53 \<le> r" "r \<le> 1 + 1 / 2 ^ 53"
    using round_double_ratio [OF lo hi] by blast
  have "1 / 2 ^ 200 \<le> \<bar>real_of_int n\<bar>"
    using a1 by (rule order_trans [rotated]) simp
  with y a2 show ?thesis
    unfolding tracks_def by (auto simp: PyInt as_float_def num_value_def)
next
  case (PyFloat d)
  with assms obtain x where x: "d = Finite x" "1 / 2 ^ 200 \<le> \<bar>x\<bar>" "\<bar>x\<bar> \<le> 2 ^ 200"
    by (cases d) (simp_all add: in_range_def)
  have "x = x * 1" "1 - 1 / 2 ^ 53 \<le> (1 :: real)" "(1 :: real) \<le> 1 + 1 / 2 ^ 53"
    by simp_all
  with x show ?thesis
    unfolding tracks_def by (auto simp: PyFloat as_float_def num_value_def)
qed

lemmas round_double_eval = round_double_def expo_def rne_def Let_def compute_bitlen

lemma glob_NA_value: "glob_NA cell2_globals = Finite 602199999999999960154112"
  by (simp add: cell2_globals_def round_double_eval)

lemma glob_R_value: "glob_R cell2_globals = Finite (4678114112931103 / 562949953421312)"
  by (simp add: cell2_globals_def round_double_eval)

lemma million_value: "round_double (10 ^ 6) = Finite 1000000"
  by (simp add: round_double_eval)

lemma tracks_NA:
  "tracks (2 ^ 78) (2 ^ 79) (1 - 1 / 2 ^ 53) (1 + 1 / 2 ^ 53)
     (Finite 602199999999999960154112) (6.022 * 10 ^ 23)"
  by (rule tracks_weaken [OF tracks_const]) simp_all

lemma tracks_R:
  "tracks (2 ^ 3) (2 ^ 4) (1 - 1 / 2 ^ 53) (1 + 1 / 2 ^ 53)
     (Finite (4678114112931103 / 562949953421312)) 8.31"
  by (rule tracks_weaken [OF tracks_const]) simp_all

lemma tracks_million:
  "tracks (2 ^ 19) (2 ^ 20) 1 1 (Finite 1000000) (10 ^ 6)"
  by (rule tracks_weaken [OF tracks_const]) simp_all

lemma vol_to_dens_double_close:
  assumes "in_range vol" "in_range temp" "in_range pressure"
  shows "\<exists>y. vol_to_dens_double cell2_globals vol temp pressure = Inr (Finite y) \<and>
           \<bar>y - density_formula (num_value vol) (num_value temp) (num_value pressure)\<bar>
             \<le> \<bar>density_formula (num_value vol) (num_value temp) (num_value pressure)\<bar> / 2 ^ 49"
proof -
  obtain dv where dv: "as_float vol = Inr dv"
    and tv: "tracks (1 / 2 ^ 200) (2 ^ 200) (1 - 1 / 2 ^ 53) (1 + 1 / 2 ^ 53) dv (num_value vol)"
    using as_float_tracks [OF assms(1)] by blast
  obtain dt where dt: "as_float temp = Inr dt"
    and tt: "tracks (1 / 2 ^ 200) (2 ^ 200) (1 - 1 / 2 ^ 53) (1 + 1 / 2 ^ 53) dt (num_value temp)"
    using as_float_tracks [OF assms(2)] by blast
  obtain dp where dp: "as_float pressure = Inr dp"
    and tp: "tracks (1 / 2 ^ 200) (2 ^ 200) (1 - 1 / 2 ^ 53) (1 + 1 / 2 ^ 53) dp
      (num_value pressure)"
    using as_float_tracks [OF assms(3)] by blast
  have ta: "tracks (1 / 2 ^ 122) (2 ^ 279) (1 - 4 / 2 ^ 53) (1 + 4 / 2 ^ 53)
      (fmul dv (Finite 602199999999999960154112)) (num_value vol * (6.022 * 10 ^ 23))"
    by (rule tracks_weaken [OF fmul_tracks [OF tv tracks_NA]]) simp_all
  have tb: "tracks (1 / 2 ^ 322) (2 ^ 479) (1 - 7 / 2 ^ 53) (1 + 7 / 2 ^ 53)
      (fmul (fmul dv (Finite 602199999999999960154112)) dp)
      (num_value vol * (6.022 * 10 ^ 23) * num_value pressure)"
    by (rule tracks_weaken [OF fmul_tracks [OF ta tp]]) simp_all
  have tc: "tracks (1 / 2 ^ 197) (2 ^ 204) (1 - 4 / 2 ^ 53) (1 + 4 / 2 ^ 53)
      (fmul (Finite (4678114112931103 / 562949953421312)) dt) (8.31 * num_value temp)"
    by (rule tracks_weaken [OF fmul_tracks [OF tracks_R tt]]) simp_all
  have td: "tracks (1 / 2 ^ 178) (2 ^ 224) (1 - 6 / 2 ^ 53) (1 + 6 / 2 ^ 53)
      (fmul (fmul (Finite (4678114112931103 / 562949953421312)) dt) (Finite 1000000))
      (8.31 * num_value temp * 10 ^ 6)"
    by (rule tracks_weaken [OF fmul_tracks [OF tc tracks_million]]) simp_all
  obtain d where d: "float_truediv (fmul (fmul dv (Finite 602199999999999960154112)) dp)
        (fmul (fmul (Finite (4678114112931103 / 562949953421312)) dt) (Finite 1000000)) = Inr d"
    and te: "tracks (1 / 2 ^ 322 / 2 ^ 224) (2 ^ 479 / (1 / 2 ^ 178))
        ((1 - 7 / 2 ^ 53) / (1 + 6 / 2 ^ 53) * (1 - 1 / 2 ^ 53))
        ((1 + 7 / 2 ^ 53) / (1 - 6 / 2 ^ 53) * (1 + 1 / 2 ^ 53)) d
        (num_value vol * (6.022 * 10 ^ 23) * num_value pressure / (8.31 * num_value temp * 10 ^ 6))"
    using float_truediv_tracks [OF tb td] by auto
  define F where
    "F = density_formula (num_value vol) (num_value temp) (num_value pressure)"
  have F: "num_value vol * (6.022 * 10 ^ 23) * num_value pressure /
      (8.31 * num_value temp * 10 ^ 6) = F"
    by (simp add: F_def density_formula_def)
  obtain y r where y: "d = Finite y" "y = F * r"
      "(1 - 7 / 2 ^ 53) / (1 + 6 / 2 ^ 53) * (1 - 1 / 2 ^ 53) \<le> r"
      "r \<le> (1 + 7 / 2 ^ 53) / (1 - 6 / 2 ^ 53) * (1 + 1 / 2 ^ 53)"
    using te unfolding tracks_def F by blast
  have "(1 :: real) - 1 / 2 ^ 49 \<le> (1 - 7 / 2 ^ 53) / (1 + 6 / 2 ^ 53) * (1 - 1 / 2 ^ 53)"
    by simp
  with y(3) have lo: "1 - 1 / 2 ^ 49 \<le> r"
    by linarith
  have "(1 + 7 / 2 ^ 53) / (1 - 6 / 2 ^ 53) * (1 + 1 / 2 ^ 53) \<le> (1 :: real) + 1 / 2 ^ 49"
    by simp
  with y(4) have hi: "r \<le> 1 + 1 / 2 ^ 49"
    by linarith
  have "y - F = F * (r - 1)"
    by (simp add: y(2) right_diff_distrib)
  then have "\<bar>y - F\<bar> = \<bar>F\<bar> * \<bar>r - 1\<bar>"
    by (simp only: abs_mult)
  also have "\<dots> \<le> \<bar>F\<bar> * (1 / 2 ^ 49)"
  proof (rule mult_left_mono)
    show "\<bar>r - 1\<bar> \<le> 1 / 2 ^ 49"
      using lo hi by linarith
  qed simp
  finally have err: "\<bar>y - F\<bar> \<le> \<bar>F\<bar> / 2 ^ 49"
    by simp
  have "vol_to_dens_double cell2_globals vol temp pressure = Inr (Finite y)"
    unfolding vol_to_dens_double_def dv dt dp and_then_Inr glob_NA_value glob_R_value
      million_value d y(1) ..
  with err show ?thesis
    unfolding F_def by blast
qed

section \<open>Zeros, infinities and what the converter raises\<close>

lemma round_double_zero: "round_double 0 = Finite 0"
  by (simp add: round_double_def)

lemma min_subnormal_pos: "0 < min_subnormal"
  by (simp add: min_subnormal_def)

lemma min_subnormal_power_int: "min_subnormal = power_int 2 (- 1074)"
  by (simp add: min_subnormal_def power_int_minus inverse_eq_divide)


lemma round_double_cases:
  assumes "min_subnormal \<le> \<bar>x\<bar>"
  shows "is_nonzero (round_double x)"
proof -
  have nz: "x \<noteq> 0"
    using assms min_subnormal_pos by auto
  define e where "e = max (expo x - 52) (- 1074)"
  define s :: real where "s = power_int 2 e"
  define m where "m = rne (x / s)"
  have spos: "0 < s"
    by (simp add: s_def)
  have "power_int (2 :: real) (expo x - 52) \<le> power_int 2 (expo x)"
    by (intro power_int_increasing) simp_all
  with expo_bounds(1) [OF nz] have a: "power_int 2 (expo x - 52) \<le> \<bar>x\<bar>"
    by linarith
  have b: "power_int 2 (- 1074) \<le> \<bar>x\<bar>"
    using assms by (simp only: min_subnormal_power_int)
  have "s \<le> \<bar>x\<bar>"
    using a b by (simp add: s_def e_def max_def)
  then have "1 \<le> \<bar>x / s\<bar>"
    using spos by (simp add: abs_divide)
  then have "m \<noteq> 0"
    unfolding m_def by (rule rne_ge_one)
  then have "1 \<le> \<bar>real_of_int m\<bar>"
    by linarith
  then have "1 * s \<le> \<bar>real_of_int m\<bar> * s"
    using spos by (intro mult_right_mono) simp_all
  moreover have "power_int (2 :: real) (- 1074) \<le> power_int 2 e"
    by (intro power_int_increasing) (simp_all add: e_def)
  ultimately have "min_subnormal \<le> \<bar>real_of_int m\<bar> * s"
    unfolding min_subnormal_power_int s_def by linarith
  then have big: "min_subnormal \<le> \<bar>real_of_int m * s\<bar>"
    using spos by (simp only: abs_mult abs_of_pos)
  have "round_double x = PosInf \<or> round_double x = NegInf
      \<or> round_double x = Finite (real_of_int m * s)"
    using nz unfolding round_double_def Let_def e_def [symmetric] s_def [symmetric]
      m_def [symmetric]
    by simp
  with big show ?thesis
    by (auto simp: is_nonzero_def)
qed

lemma is_nonzero_Finite: "is_nonzero (Finite y) \<Longrightarrow> y \<noteq> 0"
  using min_subnormal_pos by (auto simp: is_nonzero_def)

lemma round_double_not_zero:
  assumes "min_subnormal \<le> \<bar>x\<bar>"
  shows "round_double x \<noteq> Finite 0"
proof
  assume "round_double x = Finite 0"
  with round_double_cases [OF assms] have "is_nonzero (Finite 0)"
    by simp
  then show False
    by (blast dest: is_nonzero_Finite)
qed



lemma as_float_int_zero: "as_float (PyInt 0) = Inr (Finite 0)"
  by (simp add: as_float_def round_double_zero)


lemma rne_ge_int: "of_int N \<le> q \<Longrightarrow> N \<le> rne q"
proof -
  assume "of_int N \<le> q"
  then have "N \<le> \<lfloor>q\<rfloor>"
    by (simp add: le_floor_iff)
  moreover have "\<lfloor>q\<rfloor> \<le> rne q"
    by (simp add: rne_def Let_def)
  ultimately show ?thesis
    by simp
qed

lemma round_double_overflow:
  assumes "2 ^ 1024 \<le> x"
  shows "round_double x = PosInf"
proof -
  have xpos: "0 < x"
    using assms by (rule less_le_trans [rotated]) simp
  then have nz: "x \<noteq> 0" and ax: "\<bar>x\<bar> = x"
    by simp_all
  note b = expo_bounds [OF nz]
  have "power_int (2 :: real) 1024 \<le> x"
    using assms by simp
  with b(2) have "power_int (2 :: real) 1024 < power_int 2 (expo x + 1)"
    unfolding ax by linarith
  then have e0: "1024 \<le> expo x"
    using power_int_2_less_cancel [of 1024 "expo x + 1"] by simp
  define s :: real where "s = power_int 2 (expo x - 52)"
  define m where "m = rne (x / s)"
  have spos: "0 < s"
    by (simp add: s_def)
  have mx: "max (expo x - 52) (- 1074) = expo x - 52"
    using e0 by simp
  have s2: "2 ^ 52 * s = power_int 2 (expo x)"
    by (simp add: s_def power_int_diff)
  have "2 ^ 52 * s \<le> x"
    using b(1) unfolding s2 ax .
  then have "of_int (2 ^ 52) \<le> x / s"
    using spos by (simp add: pos_le_divide_eq)
  then have "2 ^ 52 \<le> m"
    unfolding m_def by (rule rne_ge_int)
  then have "(2 :: real) ^ 52 \<le> of_int m"
    by simp
  then have "2 ^ 52 * s \<le> of_int m * s"
    using spos by (intro mult_right_mono) simp_all
  moreover have "power_int (2 :: real) 1024 \<le> power_int 2 (expo x)"
    using e0 by (intro power_int_increasing) simp_all
  ultimately have "2 ^ 1024 \<le> of_int m * s"
    unfolding s2 by simp
  then have "2 ^ 1024 \<le> \<bar>of_int m * s\<bar>"
    by linarith
  then show ?thesis
    using nz xpos unfolding round_double_def mx Let_def s_def [symmetric] m_def [symmetric]
    by simp
qed

lemmas vol_to_dens_double_eval =
  vol_to_dens_double_def cell2_globals_def as_float_def float_truediv_def and_then_def
  round_double_eval

lemma vol_to_dens_double_unfold:
  assumes "as_float vol = Inr dv" "as_float pressure = Inr dp" "as_float temp = Inr dt"
  shows "vol_to_dens_double cell2_globals vol temp pressure =
    float_truediv (fmul (fmul dv (Finite 602199999999999960154112)) dp)
      (fmul (fmul (Finite (4678114112931103 / 562949953421312)) dt) (Finite 1000000))"
  unfolding vol_to_dens_double_def assms and_then_Inr glob_NA_value glob_R_value million_value ..

lemma denominator_zero:
  "fmul (fmul (Finite r) (Finite 0)) (Finite k) = Finite 0"
  by (simp add: round_double_zero)







lemma vol_to_dens_double_zero_temp:
  assumes "as_float vol = Inr dv" "as_float pressure = Inr dp" "as_float temp = Inr (Finite 0)"
  shows "vol_to_dens_double cell2_globals vol temp pressure = Inl ZeroDivisionError"
  unfolding vol_to_dens_double_unfold [OF assms] denominator_zero
  by (simp add: float_truediv_def)






lemma density_formula_scale:
  "t \<noteq> 0 \<Longrightarrow> c \<noteq> 0 \<Longrightarrow> density_formula v (c * t) (c * p) = density_formula v t p"
  by (simp add: density_formula_def)

lemma density_formula_quotient:
  assumes "t \<noteq> 0" "t' \<noteq> 0" "p / t = p' / t'"
  shows "density_formula v t p = density_formula v t' p'"
proof -
  have "density_formula v t p = v * (6.022 * 10 ^ 23) / (8.31 * 10 ^ 6) * (p / t)"
    by (simp add: density_formula_def)
  also have "\<dots> = v * (6.022 * 10 ^ 23) / (8.31 * 10 ^ 6) * (p' / t')"
    by (simp only: assms(3))
  also have "\<dots> = density_formula v t' p'"
    by (simp add: density_formula_def)
  finally show ?thesis .
qed

lemma in_range_nonzero: "in_range v \<Longrightarrow> num_value v \<noteq> 0"
  by (auto simp: in_range_def num_value_def split: py_num.splits double.splits)

text \<open>
  The two levels agree on the converter up to rounding: where the idealised
  \<open>vol_to_dens\<close> returns the value of the formula, the converter in doubles returns a
  double within relative error \<open>2^-49\<close> of it.
\<close>

lemma converter_levels_agree:
  assumes "in_range vol" "in_range temp" "in_range pressure"
  shows "vol_to_dens (num_value vol) (num_value temp) (num_value pressure)
      = Inr (density_formula (num_value vol) (num_value temp) (num_value pressure))
    \<and> (\<exists>y. vol_to_dens_double cell2_globals vol temp pressure = Inr (Finite y) \<and>
         \<bar>y - density_formula (num_value vol) (num_value temp) (num_value pressure)\<bar>
           \<le> \<bar>density_formula (num_value vol) (num_value temp) (num_value pressure)\<bar> / 2 ^ 49)"
  using vol_to_dens_density [OF in_range_nonzero [OF assms(2)]]
    vol_to_dens_double_close [OF assms]
  by blast

lemma one_value: "as_float (PyInt 1) = Inr (Finite 1)"
  by (simp add: as_float_def round_double_eval)

lemma overflow_to_inf:
  "vol_to_dens_double cell2_globals (PyFloat (Finite (2 ^ 1000))) (PyInt 1)
     (PyFloat (Finite (2 ^ 1000))) = Inr PosInf"
proof -
  have f: "as_float (PyFloat (Finite (2 ^ 1000))) = Inr (Finite (2 ^ 1000))"
    by (simp add: as_float_def)
  have a: "fmul (Finite (2 ^ 1000)) (Finite 602199999999999960154112) = PosInf"
    unfolding fmul.simps by (rule round_double_overflow) simp
  have d: "fmul (fmul (Finite (4678114112931103 / 562949953421312)) (Finite 1)) (Finite 1000000)
      = Finite (8922794557440001 / 1073741824)"
    by (simp add: round_double_eval)
  show ?thesis
    unfolding vol_to_dens_double_unfold [OF f f one_value] a d
    by (simp add: float_truediv_def)
qed





section \<open>The unit converter\<close>

text \<open>
  Claim C2. For \<open>int\<close> or \<open>float\<close> arguments of magnitude between \<open>2^-200\<close> and \<open>2^200\<close>,
  \<open>vol_to_dens(v, T, P)\<close> returns a finite double within relative error \<open>2^-49\<close> of
  \<open>v * 6.022e23 * P / (8.31 * T * 1e6)\<close>: it evaluates \<open>(v * NA * P) / (R * T * 1e6)\<close> in
  double arithmetic, with \<open>NA\<close> the double product \<open>6.022 * 1e23\<close> and \<open>R\<close> the double
  \<open>8.31\<close>. At temperature zero, when the other arguments convert to floats, it raises
  \<open>ZeroDivisionError\<close>. It is deterministic and has no side effects: a call returns that
  result and leaves the globals as it found them.
\<close>

theorem vol_to_dens_double_returns:
  "(in_range vol \<and> in_range temp \<and> in_range pressure \<longrightarrow>
      (\<exists>y. vol_to_dens_double cell2_globals vol temp pressure = Inr (Finite y) \<and>
         \<bar>y - density_formula (num_value vol) (num_value temp) (num_value pressure)\<bar>
           \<le> \<bar>density_formula (num_value vol) (num_value temp) (num_value pressure)\<bar> / 2 ^ 49))
   \<and> (as_float vol = Inr dv \<and> as_float pressure = Inr dp \<and> as_float temp = Inr (Finite 0) \<longrightarrow>
      vol_to_dens_double cell2_globals vol temp pressure = Inl ZeroDivisionError)
   \<and> fst (vol_to_dens_call g vol temp pressure) = vol_to_dens_double g vol temp pressure
   \<and> snd (vol_to_dens_call g vol temp pressure) = g"
  using vol_to_dens_double_close [of vol temp pressure]
    vol_to_dens_double_zero_temp [of vol dv pressure dp temp]
  by (simp add: vol_to_dens_call_def)

theorem vol_to_dens_double_returns_witness:
  "in_range (PyInt 1) \<and> in_range (PyInt 298) \<and> in_range (PyInt 101325)
   \<and> (\<exists>y. vol_to_dens_double cell2_globals (PyInt 1) (PyInt 298) (PyInt 101325) = Inr (Finite y)
        \<and> \<bar>y - density_formula 1 298 101325\<bar> \<le> \<bar>density_formula 1 298 101325\<bar> / 2 ^ 49)
   \<and> as_float (PyInt 0) = Inr (Finite 0)
   \<and> vol_to_dens_double cell2_globals (PyInt 1) (PyInt 0) (PyInt 1) = Inl ZeroDivisionError"
  using vol_to_dens_double_returns [where vol = "PyInt 1" and temp = "PyInt 298"
      and pressure = "PyInt 101325"]
    vol_to_dens_double_returns [where vol = "PyInt 1" and temp = "PyInt 0"
      and pressure = "PyInt 1" and dv = "Finite 1" and dp = "Finite 1"]
  by (simp add: in_range_def num_value_def as_float_def round_double_eval)

text \<open>
  Claim C2 as first stated, "returns exactly \<open>v * NA * P / (R * T * 1e6)\<close> with
  \<open>NA = 6.022e23\<close>, for every \<open>T\<close>", fails. At \<open>T = 0\<close> the call raises. At
  \<open>(1, 298, 101325)\<close> it returns the double \<open>24639964383495262208\<close>, which is neither the
  exact value of the formula nor what the expression gives in doubles when \<open>NA\<close> is the
  double \<open>6.022e23\<close>. At \<open>(2.0**1000, 1, 2.0**1000)\<close> it returns \<open>inf\<close>.
\<close>

theorem vol_to_dens_double_not_exact:
  "vol_to_dens_double cell2_globals (PyInt 1) (PyInt 0) (PyInt 1) = Inl ZeroDivisionError
   \<and> vol_to_dens_double cell2_globals (PyInt 1) (PyInt 298) (PyInt 101325)
       = Inr (Finite 24639964383495262208)
   \<and> 24639964383495262208 \<noteq> density_formula 1 298 101325
   \<and> vol_to_dens_double (cell2_globals\<lparr>glob_NA := round_double (6.022 * 10 ^ 23)\<rparr>)
         (PyInt 1) (PyInt 298) (PyInt 101325) = Inr (Finite 24639964383495266304)
   \<and> vol_to_dens_double cell2_globals (PyFloat (Finite (2 ^ 1000))) (PyInt 1)
         (PyFloat (Finite (2 ^ 1000))) = Inr PosInf"
proof (intro conjI)
  show "vol_to_dens_double cell2_globals (PyInt 1) (PyInt 0) (PyInt 1) = Inl ZeroDivisionError"
    by (simp add: vol_to_dens_double_eval)
  show "vol_to_dens_double cell2_globals (PyInt 1) (PyInt 298) (PyInt 101325)
      = Inr (Finite 24639964383495262208)"
    by (simp add: vol_to_dens_double_eval)
  show "24639964383495262208 \<noteq> density_formula 1 298 101325"
    by (simp add: density_formula_def)
  show "vol_to_dens_double (cell2_globals\<lparr>glob_NA := round_double (6.022 * 10 ^ 23)\<rparr>)
      (PyInt 1) (PyInt 298) (PyInt 101325) = Inr (Finite 24639964383495266304)"
    by (simp add: vol_to_dens_double_eval)
  show "vol_to_dens_double cell2_globals (PyFloat (Finite (2 ^ 1000))) (PyInt 1)
      (PyFloat (Finite (2 ^ 1000))) = Inr PosInf"
    by (rule overflow_to_inf)
qed




text \<open>
  Claim C9. For arguments of magnitude between \<open>2^-200\<close> and \<open>2^200\<close>, two calls whose
  pressures and temperatures have the same quotient, such as \<open>(c * T, c * P)\<close> and
  \<open>(T, P)\<close>, return doubles that each lie within relative error \<open>2^-49\<close> of the one real
  value \<open>v * 6.022e23 * P / (8.31 * T * 1e6)\<close>, which depends on \<open>T\<close> and \<open>P\<close> through
  \<open>P / T\<close> only.
\<close>

theorem vol_to_dens_double_scaling:
  "(in_range vol \<and> in_range temp \<and> in_range pressure \<and> in_range temp' \<and> in_range pressure'
      \<and> num_value pressure / num_value temp = num_value pressure' / num_value temp' \<longrightarrow>
      (\<exists>y y'. vol_to_dens_double cell2_globals vol temp pressure = Inr (Finite y)
         \<and> vol_to_dens_double cell2_globals vol temp' pressure' = Inr (Finite y')
         \<and> \<bar>y - density_formula (num_value vol) (num_value temp) (num_value pressure)\<bar>
             \<le> \<bar>density_formula (num_value vol) (num_value temp) (num_value pressure)\<bar> / 2 ^ 49
         \<and> \<bar>y' - density_formula (num_value vol) (num_value temp) (num_value pressure)\<bar>
             \<le> \<bar>density_formula (num_value vol) (num_value temp) (num_value pressure)\<bar> / 2 ^ 49))
   \<and> (t \<noteq> 0 \<and> c \<noteq> 0 \<longrightarrow> density_formula v (c * t) (c * p) = density_formula v t p)"
proof (intro conjI impI)
  assume a: "in_range vol \<and> in_range temp \<and> in_range pressure \<and> in_range temp'
    \<and> in_range pressure'
    \<and> num_value pressure / num_value temp = num_value pressure' / num_value temp'"
  then have "density_formula (num_value vol) (num_value temp) (num_value pressure)
      = density_formula (num_value vol) (num_value temp') (num_value pressure')"
    by (intro density_formula_quotient in_range_nonzero) simp_all
  with a vol_to_dens_double_close [of vol temp pressure]
    vol_to_dens_double_close [of vol temp' pressure']
  show "\<exists>y y'. vol_to_dens_double cell2_globals vol temp pressure = Inr (Finite y)
         \<and> vol_to_dens_double cell2_globals vol temp' pressure' = Inr (Finite y')
         \<and> \<bar>y - density_formula (num_value vol) (num_value temp) (num_value pressure)\<bar>
             \<le> \<bar>density_formula (num_value vol) (num_value temp) (num_value pressure)\<bar> / 2 ^ 49
         \<and> \<bar>y' - density_formula (num_value vol) (num_value temp) (num_value pressure)\<bar>
             \<le> \<bar>density_formula (num_value vol) (num_value temp) (num_value pressure)\<bar> / 2 ^ 49"
    by force
next
  assume "t \<noteq> 0 \<and> c \<noteq> 0"
  then show "density_formula v (c * t) (c * p) = density_formula v t p"
    by (simp add: density_formula_scale)
qed

theorem vol_to_dens_double_scaling_witness:
  "in_range (PyInt 1) \<and> in_range (PyInt 298) \<and> in_range (PyInt 101325)
   \<and> in_range (PyInt 1490) \<and> in_range (PyInt 506625)
   \<and> (101325 / 298 :: real) = 506625 / 1490
   \<and> (\<exists>y y'. vol_to_dens_double cell2_globals (PyInt 1) (PyInt 298) (PyInt 101325) = Inr (Finite y)
         \<and> vol_to_dens_double cell2_globals (PyInt 1) (PyInt 1490) (PyInt 506625) = Inr (Finite y')
         \<and> \<bar>y - density_formula 1 298 101325\<bar> \<le> \<bar>density_formula 1 298 101325\<bar> / 2 ^ 49
         \<and> \<bar>y' - density_formula 1 298 101325\<bar> \<le> \<bar>density_formula 1 298 101325\<bar> / 2 ^ 49)
   \<and> density_formula 1 (5 * 298) (5 * 101325) = density_formula 1 298 101325"
  using vol_to_dens_double_scaling [where vol = "PyInt 1" and temp = "PyInt 298"
      and pressure = "PyInt 101325" and temp' = "PyInt 1490" and pressure' = "PyInt 506625"
      and t = 298 and c = 5 and v = 1 and p = 101325]
  by (simp add: in_range_def num_value_def)

text \<open>
  Claim C9 as first stated, equality of the two results, fails at the factor five:
  \<open>vol_to_dens(1, 5 * 298, 5 * 101325)\<close> and \<open>vol_to_dens(1, 298, 101325)\<close> differ in
  the last bit.
\<close>

theorem vol_to_dens_double_scaling_fails:
  "vol_to_dens_double cell2_globals (PyInt 1) (PyInt 298) (PyInt 101325)
       = Inr (Finite 24639964383495262208)
   \<and> vol_to_dens_double cell2_globals (PyInt 1) (PyInt (5 * 298)) (PyInt (5 * 101325))
       = Inr (Finite 24639964383495258112)
   \<and> vol_to_dens_double cell2_globals (PyInt 1) (PyInt (5 * 298)) (PyInt (5 * 101325))
       \<noteq> vol_to_dens_double cell2_globals (PyInt 1) (PyInt 298) (PyInt 101325)"
proof -
  have a: "vol_to_dens_double cell2_globals (PyInt 1) (PyInt 298) (PyInt 101325)
      = Inr (Finite 24639964383495262208)"
    by (simp add: vol_to_dens_double_eval)
  have b: "vol_to_dens_double cell2_globals (PyInt 1) (PyInt (5 * 298)) (PyInt (5 * 101325))
      = Inr (Finite 24639964383495258112)"
    by (simp add: vol_to_dens_double_eval)
  show ?thesis
    unfolding a b by simp
qed

section \<open>What raises and what does not\<close>




section \<open>The numbers the notebook prints\<close>

text \<open>
  Claim C1. With the literal inputs of the notebook (\<open>p_sfc = 101325\<close>, \<open>t_sfc = 298\<close>,
  \<open>ho2 = 40e-12\<close>, \<open>ch3o2 = 25e-12\<close>, \<open>o3 = 40e-9\<close>, \<open>oh = 1e6\<close>, \<open>f = 0.15\<close>,
  \<open>j_o1d = 2.5e-5\<close>, \<open>k1 = k2 = 8.5e-12\<close>, \<open>k1_l = 7.3e-14\<close>, \<open>k2_l = 2e-15\<close>) the
  critical NO concentration is computed as
  \<open>o3_density * (k1_l*oh + k2_l*ho2_density + f*j_o1d) / (k1*ho2_density + k2*ch3o2_density)\<close>
  from the converted densities, and the result is within 1 per cent of \<open>4.19e8\<close>.
\<close>

theorem critical_no_value:
  "no_crit = Inr (density_formula o3 t_sfc p_sfc *
       (k1_l * oh_c + k2_l * density_formula ho2 t_sfc p_sfc + f * j_o1d) /
       (k1 * density_formula ho2 t_sfc p_sfc + k2 * density_formula ch3o2 t_sfc p_sfc))
   \<and> approx_rel (1 / 100) (4.19 * 10 ^ 8) no_crit"
proof
  show "no_crit = Inr (density_formula o3 t_sfc p_sfc *
       (k1_l * oh_c + k2_l * density_formula ho2 t_sfc p_sfc + f * j_o1d) /
       (k1 * density_formula ho2 t_sfc p_sfc + k2 * density_formula ch3o2 t_sfc p_sfc))"
    by (rule no_crit_value)
  show "approx_rel (1 / 100) (4.19 * 10 ^ 8) no_crit"
    unfolding no_crit_value approx_rel_def
    by (simp add: density_formula_def literal_defs)
qed

text \<open>
  Claim C4. The ratio of NO to NO2 is computed at each level as
  \<open>j_no2 / (k * o3_density)\<close> with the Arrhenius rate \<open>k = A * exp(-Ea_over_R / temperature)\<close>,
  where \<open>A = 1.4e-12\<close> and \<open>Ea_over_R = 1310\<close>; with the notebook's literals it is within
  1 per cent of \<open>0.59\<close> at the surface and within 1 per cent of \<open>2.99\<close> at 10 km.
\<close>

theorem no_no2_ratio_values:
  "rat_sfc = Inr (ratio_formula j_no2 (arrhenius (1.4 * (1 / 10 ^ 12)) 1310 t_sfc)
                    (density_formula o3_sfc t_sfc p_sfc))
   \<and> rat_10 = Inr (ratio_formula j_no2 (arrhenius (1.4 * (1 / 10 ^ 12)) 1310 t_10)
                    (density_formula o3_10 t_10 p_10))
   \<and> approx_rel (1 / 100) 0.59 rat_sfc
   \<and> approx_rel (1 / 100) 2.99 rat_10"
proof (intro conjI)
  show "approx_rel (1 / 100) 0.59 rat_sfc"
    unfolding rat_sfc_value approx_rel_def
    using rat_sfc_bounds by (simp add: abs_le_iff)
  show "approx_rel (1 / 100) 2.99 rat_10"
    unfolding rat_10_value approx_rel_def
    using rat_10_bounds by (simp add: abs_le_iff)
qed (rule rat_sfc_value rat_10_value)+

text \<open>
  Claim C5. The NOx lifetime, printed in hours (the computed seconds divided by 3600), is
  within 1 per cent of \<open>6.81\<close> at the surface and within 1 per cent of \<open>18.37\<close> at 10 km.
\<close>

theorem nox_lifetime_hours:
  "approx_rel (1 / 100) 6.81 tau_nox_sfc_hours \<and> approx_rel (1 / 100) 18.37 tau_nox_10_hours"
  unfolding tau_nox_sfc_hours_value tau_nox_10_hours_value approx_rel_def
  using tau_nox_sfc_hours_bounds tau_nox_10_hours_bounds by simp

text \<open>
  The enclosures behind the three theorems above are tighter than the tolerance asks
  for: each of the five values is within half a per cent of its target, the two
  lifetimes within a hundredth of an hour.
\<close>

lemma printed_values_margin:
  "approx_rel (1 / 200) (4.19 * 10 ^ 8) no_crit
   \<and> approx_rel (1 / 200) 0.59 rat_sfc \<and> approx_rel (1 / 200) 2.99 rat_10
   \<and> approx_rel (1 / 200) 6.81 tau_nox_sfc_hours
   \<and> approx_rel (1 / 200) 18.37 tau_nox_10_hours"
proof (intro conjI)
  show "approx_rel (1 / 200) (4.19 * 10 ^ 8) no_crit"
    unfolding no_crit_value approx_rel_def
    by (simp add: density_formula_def literal_defs)
  show "approx_rel (1 / 200) 0.59 rat_sfc"
    unfolding rat_sfc_value approx_rel_def
    using rat_sfc_bounds by (simp add: abs_le_iff)
  show "approx_rel (1 / 200) 2.99 rat_10"
    unfolding rat_10_value approx_rel_def
    using rat_10_bounds by (simp add: abs_le_iff)
  show "approx_rel (1 / 200) 6.81 tau_nox_sfc_hours"
    unfolding tau_nox_sfc_hours_value approx_rel_def
    using tau_nox_sfc_hours_bounds by simp
  show "approx_rel (1 / 200) 18.37 tau_nox_10_hours"
    unfolding tau_nox_10_hours_value approx_rel_def
    using tau_nox_10_hours_bounds by simp
qed

section \<open>The lifetime of NOx\<close>

text \<open>
  Claim C6. At each level the NOx lifetime is the composition
  \<open>tau_nox = tau_no2 * (1 + ratio)\<close> with \<open>tau_no2 = 1 / (k_termolecular * oh_density)\<close> and
  \<open>k_termolecular = A2 * (temperature/300)^(-3) * n2_density\<close>, where \<open>A2 = 3.3e-30\<close>,
  \<open>n2_density\<close> is the converted N2 number density of the level and \<open>ratio\<close> the ratio
  of NO to NO2 computed for the level.
\<close>

theorem nox_lifetime_composition:
  "(\<exists>n r. n2_sfc_c = Inr n \<and> rat_sfc = Inr r
      \<and> kn_sfc = Inr (k_termolecular (3.3 * (1 / 10 ^ 30)) t_sfc n)
      \<and> tau_no2_sfc = Inr (tau_no2_formula (k_termolecular (3.3 * (1 / 10 ^ 30)) t_sfc n) oh_c)
      \<and> tau_nox_sfc = Inr (tau_nox_formula
            (tau_no2_formula (k_termolecular (3.3 * (1 / 10 ^ 30)) t_sfc n) oh_c) r))
   \<and> (\<exists>n r. n2_10_c = Inr n \<and> rat_10 = Inr r
      \<and> kn_10 = Inr (k_termolecular (3.3 * (1 / 10 ^ 30)) t_10 n)
      \<and> tau_no2_10 = Inr (tau_no2_formula (k_termolecular (3.3 * (1 / 10 ^ 30)) t_10 n) oh_c)
      \<and> tau_nox_10 = Inr (tau_nox_formula
            (tau_no2_formula (k_termolecular (3.3 * (1 / 10 ^ 30)) t_10 n) oh_c) r))"
  unfolding n2_sfc_c_value n2_10_c_value rat_sfc_value rat_10_value kn_sfc_value kn_10_value
    tau_no2_sfc_value tau_no2_10_value tau_nox_sfc_value tau_nox_10_value
  by blast

text \<open>
  Claim C10. At each level the notebook returns a NO2 lifetime \<open>t\<close>, a strictly positive
  ratio \<open>r\<close> and the NOx lifetime \<open>t * (1 + r)\<close>, which is strictly above \<open>t\<close>.
\<close>

theorem nox_outlives_no2:
  "(\<exists>t r. tau_no2_sfc = Inr t \<and> rat_sfc = Inr r \<and> 0 < r
      \<and> tau_nox_sfc = Inr (t * (1 + r)) \<and> t < t * (1 + r))
   \<and> (\<exists>t r. tau_no2_10 = Inr t \<and> rat_10 = Inr r \<and> 0 < r
      \<and> tau_nox_10 = Inr (t * (1 + r)) \<and> t < t * (1 + r))"
proof -
  have less: "t < t * (1 + r)" if "0 < t" "0 < r" for t r :: real
    using that by (simp add: distrib_left)
  show ?thesis
    unfolding tau_no2_sfc_value tau_no2_10_value rat_sfc_value rat_10_value
      tau_nox_sfc_value tau_nox_10_value tau_nox_formula_def
    using less [OF tau_no2_sfc_pos rat_sfc_pos] less [OF tau_no2_10_pos rat_10_pos]
      rat_sfc_pos rat_10_pos
    by blast
qed

section \<open>Positivity\<close>

text \<open>
  Claim C8. Every quantity the notebook computes from its literal inputs is returned and
  strictly positive: the seven converted number densities, the four rate constants, the
  critical NO concentration, both ratios, both NO2 lifetimes, both NOx lifetimes and the
  two lifetimes in hours.
\<close>

theorem computed_quantities_positive:
  "positive ho2_c \<and> positive ch3o2_c \<and> positive o3_c
   \<and> positive o3_sfc_c \<and> positive o3_10_c \<and> positive n2_sfc_c \<and> positive n2_10_c
   \<and> positive k_sfc \<and> positive k_10 \<and> positive kn_sfc \<and> positive kn_10
   \<and> positive no_crit \<and> positive rat_sfc \<and> positive rat_10
   \<and> positive tau_no2_sfc \<and> positive tau_no2_10
   \<and> positive tau_nox_sfc \<and> positive tau_nox_10
   \<and> positive tau_nox_sfc_hours \<and> positive tau_nox_10_hours"
proof -
  have d: "positive ho2_c" "positive ch3o2_c" "positive o3_c" "positive o3_sfc_c"
    "positive o3_10_c" "positive n2_sfc_c" "positive n2_10_c"
    unfolding ho2_c_value ch3o2_c_value o3_c_value o3_sfc_c_value o3_10_c_value
      n2_sfc_c_value n2_10_c_value positive_Inr
    by (intro density_formula_pos literals_pos)+
  have k: "positive k_sfc" "positive k_10"
    unfolding k_sfc_value k_10_value positive_Inr
    by (rule arrhenius_pos, simp)+
  have kn: "positive kn_sfc" "positive kn_10"
    unfolding kn_sfc_value kn_10_value positive_Inr
    by (rule kn_sfc_pos kn_10_pos)+
  have "0 < density_formula o3 t_sfc p_sfc *
       (k1_l * oh_c + k2_l * density_formula ho2 t_sfc p_sfc + f * j_o1d)"
    by (intro mult_pos_pos add_pos_pos density_formula_pos literals_pos)
  moreover
  have "0 < k1 * density_formula ho2 t_sfc p_sfc + k2 * density_formula ch3o2 t_sfc p_sfc"
    by (intro add_pos_pos mult_pos_pos density_formula_pos literals_pos)
  ultimately have n: "positive no_crit"
    unfolding no_crit_value positive_Inr by (rule divide_pos_pos)
  have r: "positive rat_sfc" "positive rat_10"
    unfolding rat_sfc_value rat_10_value positive_Inr
    by (rule rat_sfc_pos rat_10_pos)+
  have t: "positive tau_no2_sfc" "positive tau_no2_10"
    unfolding tau_no2_sfc_value tau_no2_10_value positive_Inr
    by (rule tau_no2_sfc_pos tau_no2_10_pos)+
  have x: "positive tau_nox_sfc" "positive tau_nox_10"
    unfolding tau_nox_sfc_value tau_nox_10_value positive_Inr
    by (intro tau_nox_formula_pos tau_no2_sfc_pos tau_no2_10_pos rat_sfc_pos rat_10_pos)+
  have h: "positive tau_nox_sfc_hours" "positive tau_nox_10_hours"
    unfolding tau_nox_sfc_hours_value tau_nox_10_hours_value positive_Inr
    by (intro divide_pos_pos tau_nox_formula_pos tau_no2_sfc_pos tau_no2_10_pos
        rat_sfc_pos rat_10_pos, simp)+
  from d k kn n r t x h show ?thesis
    by (intro conjI)
qed

end
